theory Spec2Isabelle
  imports Complex_Main
begin

section \<open>Values\<close>

text \<open>
  A Python float is an IEEE double: a finite value, an infinity or a nan. A finite double
  is modelled by the real number it denotes. Python compares two doubles, and an int with
  a double, by their exact values, so the order of the reals is the order of the program
  on finite values; the special values compare as IEEE says.
\<close>

datatype pyfloat = Finite real | PosInf | NegInf | NaN

text \<open>
  The values a snapshot, an alert or a history file holds: what \<^verbatim>\<open>json\<close> reads and
  writes. A dict is an association list in insertion order, looked up with \<open>map_of\<close>.
\<close>

datatype jvalue =
    JNone
  | JBool bool
  | JInt int
  | JFloat pyfloat
  | JStr string
  | JList "jvalue list"
  | JDict "(string \<times> jvalue) list"

type_synonym pydict = "(string \<times> jvalue) list"

datatype error =
    ValueError
  | TypeError
  | KeyError string
  | IndexError
  | AttributeError
  | OSError

fun float_lt :: "pyfloat \<Rightarrow> pyfloat \<Rightarrow> bool" where
  "float_lt (Finite x) (Finite y) = (x < y)"
| "float_lt (Finite x) PosInf = True"
| "float_lt NegInf (Finite y) = True"
| "float_lt NegInf PosInf = True"
| "float_lt _ _ = False"

fun float_eq :: "pyfloat \<Rightarrow> pyfloat \<Rightarrow> bool" where
  "float_eq (Finite x) (Finite y) = (x = y)"
| "float_eq PosInf PosInf = True"
| "float_eq NegInf NegInf = True"
| "float_eq _ _ = False"

text \<open>
  The number a value is when Python compares it with a float: an int by its exact value,
  a bool as the int it is, a float as itself; anything else is not a number.
\<close>

fun as_number :: "jvalue \<Rightarrow> pyfloat option" where
  "as_number (JInt n) = Some (Finite (of_int n))"
| "as_number (JFloat x) = Some x"
| "as_number (JBool b) = Some (Finite (if b then 1 else 0))"
| "as_number _ = None"

text \<open>
  \<^verbatim>\<open>x > y\<close>, \<^verbatim>\<open>x < y\<close>, \<^verbatim>\<open>x >= y\<close>, \<^verbatim>\<open>x <= y\<close> with \<open>y\<close> a float raise
  TypeError when \<open>x\<close> is a str, a list, a dict or None; \<^verbatim>\<open>x == y\<close> is then False and
  \<^verbatim>\<open>x != y\<close> True.
\<close>

definition py_gt :: "jvalue \<Rightarrow> pyfloat \<Rightarrow> error + bool" where
  "py_gt x y = (case as_number x of None \<Rightarrow> Inl TypeError | Some a \<Rightarrow> Inr (float_lt y a))"

definition py_lt :: "jvalue \<Rightarrow> pyfloat \<Rightarrow> error + bool" where
  "py_lt x y = (case as_number x of None \<Rightarrow> Inl TypeError | Some a \<Rightarrow> Inr (float_lt a y))"

definition py_ge :: "jvalue \<Rightarrow> pyfloat \<Rightarrow> error + bool" where
  "py_ge x y =
     (case as_number x of None \<Rightarrow> Inl TypeError | Some a \<Rightarrow> Inr (float_lt y a \<or> float_eq a y))"

definition py_le :: "jvalue \<Rightarrow> pyfloat \<Rightarrow> error + bool" where
  "py_le x y =
     (case as_number x of None \<Rightarrow> Inl TypeError | Some a \<Rightarrow> Inr (float_lt a y \<or> float_eq a y))"

definition py_eq :: "jvalue \<Rightarrow> pyfloat \<Rightarrow> error + bool" where
  "py_eq x y = (case as_number x of None \<Rightarrow> Inr False | Some a \<Rightarrow> Inr (float_eq a y))"

definition py_ne :: "jvalue \<Rightarrow> pyfloat \<Rightarrow> error + bool" where
  "py_ne x y = (case as_number x of None \<Rightarrow> Inr True | Some a \<Rightarrow> Inr (\<not> float_eq a y))"

section \<open>Strings\<close>

text \<open>
  A character is a code point below 256. \<^verbatim>\<open>str.split()\<close> splits at runs of the
  characters \<^verbatim>\<open>str.isspace\<close> accepts and drops empty tokens; \<^verbatim>\<open>str.split('.')\<close>
  splits at every dot and keeps empty segments.
\<close>

definition isspace :: "char \<Rightarrow> bool" where
  "isspace c = (of_char c \<in> {9, 10, 11, 12, 13, 28, 29, 30, 31, 32, 133, 160 :: nat})"

fun split_from :: "string \<Rightarrow> string \<Rightarrow> string list" where
  "split_from cur [] = (if cur = [] then [] else [cur])"
| "split_from cur (c # cs) =
     (if isspace c then (if cur = [] then split_from [] cs else cur # split_from [] cs)
      else split_from (cur @ [c]) cs)"

definition str_split :: "string \<Rightarrow> string list" where
  "str_split s = split_from [] s"

fun split_at :: "char \<Rightarrow> string \<Rightarrow> string \<Rightarrow> string list" where
  "split_at sep cur [] = [cur]"
| "split_at sep cur (c # cs) =
     (if c = sep then cur # split_at sep [] cs else split_at sep (cur @ [c]) cs)"

definition str_split_sep :: "char \<Rightarrow> string \<Rightarrow> string list" where
  "str_split_sep sep s = split_at sep [] s"

section \<open>The rules engine (rules.py)\<close>

text \<open>
  \<^verbatim>\<open>_get_nested_value\<close>: the loop over the keys of the dotted path. None is the
  result when a key is missing or the value reached is not a dict.
\<close>

fun get_nested_loop :: "jvalue \<Rightarrow> string list \<Rightarrow> jvalue" where
  "get_nested_loop val [] = val"
| "get_nested_loop val (key # keys) =
     (case val of
        JDict d \<Rightarrow>
          (case map_of d key of
             Some v \<Rightarrow> get_nested_loop v keys
           | None \<Rightarrow> JNone)
      | _ \<Rightarrow> JNone)"

definition get_nested_value :: "jvalue \<Rightarrow> string \<Rightarrow> jvalue" where
  "get_nested_value data path = get_nested_loop data (str_split_sep (CHR ''.'') path)"

text \<open>The dict of operators in \<^verbatim>\<open>evaluate\<close>.\<close>

definition operators :: "string \<Rightarrow> (jvalue \<Rightarrow> pyfloat \<Rightarrow> error + bool) option" where
  "operators =
     map_of [(''>'', py_gt), (''<'', py_lt), (''>='', py_ge), (''<='', py_le),
             (''=='', py_eq), (''!='', py_ne)]"

text \<open>
  \<^verbatim>\<open>evaluate\<close>. The builtin \<^verbatim>\<open>float\<close> is the parameter \<open>flt\<close>: None where it raises
  ValueError. The conversion comes before the path is looked up.
\<close>

definition evaluate :: "(string \<Rightarrow> pyfloat option) \<Rightarrow> string \<Rightarrow> jvalue \<Rightarrow> error + bool" where
  "evaluate flt condition stats =
     (let parts = str_split condition in
      if length parts \<noteq> 3 then Inr False
      else
        let metric_path = parts ! 0; operator = parts ! 1; threshold = parts ! 2 in
        case flt threshold of
          None \<Rightarrow> Inl ValueError
        | Some threshold' \<Rightarrow>
            let current_value = get_nested_value stats metric_path in
            if current_value = JNone then Inr False
            else
              (case operators operator of
                 Some op_func \<Rightarrow> op_func current_value threshold'
               | None \<Rightarrow> Inr False))"

text \<open>
  \<^verbatim>\<open>extract_value\<close>. The builtin \<^verbatim>\<open>round\<close> is the parameter \<open>rnd\<close>, applied to the
  value and to the number of digits: \<^verbatim>\<open>round(value, 2)\<close> is \<open>rnd value 2\<close>.
  \<^verbatim>\<open>condition.split()[0]\<close> raises IndexError when the condition has no token.
\<close>

definition extract_value ::
  "(pyfloat \<Rightarrow> int \<Rightarrow> pyfloat) \<Rightarrow> string \<Rightarrow> jvalue \<Rightarrow> error + jvalue" where
  "extract_value rnd condition stats =
     (case str_split condition of
        [] \<Rightarrow> Inl IndexError
      | metric_path # _ \<Rightarrow>
          (case get_nested_value stats metric_path of
             JFloat x \<Rightarrow> Inr (JFloat (rnd x 2))
           | v \<Rightarrow> Inr v))"

text \<open>
  A rule of the store: \<^verbatim>\<open>rule["name"]\<close>, \<^verbatim>\<open>rule["condition"]\<close>, \<^verbatim>\<open>rule["severity"]\<close>.
  The store is the dict of rules.json, in its order.
\<close>

record rule =
  r_name :: string
  r_condition :: string
  r_severity :: string

text \<open>
  \<^verbatim>\<open>check\<close>: the loop over \<^verbatim>\<open>self.rules.items()\<close> with the list \<open>triggered\<close>. An
  exception of \<open>evaluate\<close> leaves the loop.
\<close>

fun check_loop ::
  "(string \<Rightarrow> pyfloat option) \<Rightarrow> (pyfloat \<Rightarrow> int \<Rightarrow> pyfloat) \<Rightarrow> (string \<times> rule) list \<Rightarrow>
   jvalue \<Rightarrow>
   pydict list \<Rightarrow> error + pydict list" where
  "check_loop flt rnd [] stats triggered = Inr triggered"
| "check_loop flt rnd ((rule_name, r) # rest) stats triggered =
     (case evaluate flt (r_condition r) stats of
        Inl e \<Rightarrow> Inl e
      | Inr False \<Rightarrow> check_loop flt rnd rest stats triggered
      | Inr True \<Rightarrow>
          (case extract_value rnd (r_condition r) stats of
             Inl e \<Rightarrow> Inl e
           | Inr v \<Rightarrow>
               check_loop flt rnd rest stats
                 (triggered @
                  [[(''name'', JStr (r_name r)), (''severity'', JStr (r_severity r)),
                    (''current_value'', v)]])))"

definition check ::
  "(string \<Rightarrow> pyfloat option) \<Rightarrow> (pyfloat \<Rightarrow> int \<Rightarrow> pyfloat) \<Rightarrow> (string \<times> rule) list \<Rightarrow>
   jvalue \<Rightarrow>
   error + pydict list" where
  "check flt rnd rules stats = check_loop flt rnd rules stats []"

text \<open>
  The resolution of a dotted path as the design describes it: walking the snapshot key by
  key, every segment present in the mapping reached so far.
\<close>

inductive resolves :: "jvalue \<Rightarrow> string list \<Rightarrow> jvalue \<Rightarrow> bool" where
  resolves_here: "resolves v [] v"
| resolves_step: "map_of d key = Some v \<Longrightarrow> resolves v keys leaf \<Longrightarrow> resolves (JDict d) (key # keys) leaf"

text \<open>
  The comparison \<^verbatim>\<open>current_value <op> threshold\<close> on two numbers, for the six operators
  of the rule language.
\<close>

definition direct_comparison :: "string \<Rightarrow> pyfloat \<Rightarrow> pyfloat \<Rightarrow> bool" where
  "direct_comparison op x y =
     (if op = ''>'' then float_lt y x
      else if op = ''<'' then float_lt x y
      else if op = ''>='' then float_lt y x \<or> float_eq x y
      else if op = ''<='' then float_lt x y \<or> float_eq x y
      else if op = ''=='' then float_eq x y
      else \<not> float_eq x y)"

text \<open>
  Two instances of the builtins for closed examples. \<open>float_literal\<close> is \<^verbatim>\<open>float\<close> on
  strings of ASCII digits (the integer they denote, a double when below \<open>2 ^ 53\<close>) and on
  strings that hold no digit and name no infinity or nan, which \<^verbatim>\<open>float\<close> rejects; the
  examples use no other literal. \<open>py_round x ndigits\<close> rounds the exact value of \<open>x\<close> to
  \<open>ndigits\<close> decimals, ties to even, as \<^verbatim>\<open>round(x, ndigits)\<close> does; Python returns the
  double nearest to that decimal, which is the decimal itself in the examples.
\<close>

definition float_literal :: "string \<Rightarrow> pyfloat option" where
  "float_literal s =
     (if s \<noteq> [] \<and> list_all (\<lambda>c. 48 \<le> (of_char c :: nat) \<and> (of_char c :: nat) \<le> 57) s
      then Some (Finite (of_nat (foldl (\<lambda>n c. 10 * n + (of_char c - 48)) (0 :: nat) s)))
      else None)"

definition round_half_even :: "real \<Rightarrow> int" where
  "round_half_even y =
     (let f = \<lfloor>y\<rfloor>; d = y - of_int f in
      if d < 1 / 2 then f else if 1 / 2 < d then f + 1 else if even f then f else f + 1)"

definition scale10 :: "int \<Rightarrow> real" where
  "scale10 ndigits = (if 0 \<le> ndigits then 10 ^ nat ndigits else 1 / 10 ^ nat (- ndigits))"

fun py_round :: "pyfloat \<Rightarrow> int \<Rightarrow> pyfloat" where
  "py_round (Finite x) ndigits =
     Finite (of_int (round_half_even (x * scale10 ndigits)) / scale10 ndigits)"
| "py_round v ndigits = v"

section \<open>The action dispatcher (actions.py)\<close>

text \<open>
  \<^verbatim>\<open>actions_config.json\<close>. A field is None when its key is absent: the code reads
  \<^verbatim>\<open>email\<close>, \<^verbatim>\<open>enabled\<close>, \<^verbatim>\<open>log_file\<close> and \<^verbatim>\<open>alert_history\<close> with a default and
  the other keys by index.
\<close>

record email_config =
  enabled :: "bool option"
  smtp_server :: "string option"
  smtp_port :: "int option"
  sender_email :: "string option"
  sender_password :: "string option"
  recipient_email :: "string option"

record config =
  email :: "email_config option"
  log_file :: "string option"
  alert_history :: "string option"

text \<open>
  What the dispatcher does to the outside is a trace of effects, in order. Console lines
  and log records carry the values formatted into them.
\<close>

datatype level = CRITICAL | WARNING | INFO

datatype console =
    CriticalBanner jvalue
  | WarningBanner jvalue
  | InfoBanner jvalue
  | CurrentValue jvalue
  | CpuAction
  | MemoryAction
  | DiskAction
  | EmailSent
  | EmailFailed
  | HistoryFailed
  | WindowsNotification
  | NotificationFailed
  | HistoryReadError

record message =
  msg_from :: string
  msg_to :: string
  msg_subject :: jvalue
  msg_alert :: jvalue
  msg_severity :: jvalue
  msg_value :: jvalue
  msg_time :: string

datatype effect =
    Print console
  | Log level jvalue jvalue
  | SmtpConnect string int
  | SmtpStartTls
  | SmtpLogin string string
  | SmtpSendMessage message
  | SmtpQuit
  | NotifySend jvalue jvalue
  | OsaScript jvalue jvalue

text \<open>Network I/O is the SMTP session.\<close>

fun is_network :: "effect \<Rightarrow> bool" where
  "is_network (SmtpConnect _ _) = True"
| "is_network SmtpStartTls = True"
| "is_network (SmtpLogin _ _) = True"
| "is_network (SmtpSendMessage _) = True"
| "is_network SmtpQuit = True"
| "is_network _ = False"

text \<open>
  A file that holds JSON: missing, not decodable, or the array stored in it. The world is
  the files by path, what the environment answers (whether a path can be opened for
  writing, whether the relay can be reached, \<^verbatim>\<open>os.name\<close>, \<^verbatim>\<open>os.uname().sysname\<close> where
  the platform has it) and the trace so far.
\<close>

datatype json_file = Missing | Corrupt | Stored "jvalue list"

record world =
  files :: "string \<Rightarrow> json_file"
  writable :: "string \<Rightarrow> bool"
  smtp_reachable :: bool
  os_name :: string
  uname_sysname :: "string option"
  trace :: "effect list"

text \<open>
  A statement runs in a world and returns normally or raises, with the world it leaves.
\<close>

type_synonym 'a action = "world \<Rightarrow> (error + 'a) \<times> world"

definition pure :: "'a \<Rightarrow> 'a action" where
  "pure x w = (Inr x, w)"

definition raise :: "error \<Rightarrow> 'a action" where
  "raise e w = (Inl e, w)"

definition and_then :: "'a action \<Rightarrow> ('a \<Rightarrow> 'b action) \<Rightarrow> 'b action" where
  "and_then m f w = (case m w of (Inl e, w') \<Rightarrow> (Inl e, w') | (Inr x, w') \<Rightarrow> f x w')"

definition emit :: "effect \<Rightarrow> unit action" where
  "emit e w = (Inr (), w\<lparr>trace := trace w @ [e]\<rparr>)"

text \<open>\<^verbatim>\<open>d[key]\<close>: KeyError when the key is absent.\<close>

definition item :: "pydict \<Rightarrow> string \<Rightarrow> jvalue action" where
  "item d key = (case map_of d key of None \<Rightarrow> raise (KeyError key) | Some v \<Rightarrow> pure v)"

definition field :: "'a option \<Rightarrow> string \<Rightarrow> 'a action" where
  "field v key = (case v of None \<Rightarrow> raise (KeyError key) | Some x \<Rightarrow> pure x)"

text \<open>\<^verbatim>\<open>try: body except Exception: handler\<close>.\<close>

definition try_except :: "unit action \<Rightarrow> unit action \<Rightarrow> unit action" where
  "try_except body handler w =
     (case body w of (Inl e, w') \<Rightarrow> handler w' | (Inr x, w') \<Rightarrow> (Inr x, w'))"

text \<open>\<^verbatim>\<open>xs[i:]\<close> and \<^verbatim>\<open>sub in x\<close>.\<close>

definition slice_from :: "int \<Rightarrow> 'a list \<Rightarrow> 'a list" where
  "slice_from i xs =
     (if i < 0 then drop (nat (int (length xs) + i)) xs else drop (nat i) xs)"

fun starts_with :: "string \<Rightarrow> string \<Rightarrow> bool" where
  "starts_with [] s = True"
| "starts_with (p # ps) [] = False"
| "starts_with (p # ps) (c # cs) = (p = c \<and> starts_with ps cs)"

fun str_contains :: "string \<Rightarrow> string \<Rightarrow> bool" where
  "str_contains sub [] = (sub = [])"
| "str_contains sub (c # cs) = (starts_with sub (c # cs) \<or> str_contains sub cs)"

definition py_in :: "string \<Rightarrow> jvalue \<Rightarrow> bool action" where
  "py_in sub x =
     (case x of
        JStr s \<Rightarrow> pure (str_contains sub s)
      | JList xs \<Rightarrow> pure (JStr sub \<in> set xs)
      | JDict d \<Rightarrow> pure (sub \<in> fst ` set d)
      | _ \<Rightarrow> raise TypeError)"

text \<open>
  \<^verbatim>\<open>_send_email\<close>. The body of the \<^verbatim>\<open>try\<close> reads the configuration and the alert,
  then opens the session; the relay that cannot be reached fails the connection.
\<close>

definition smtp_session :: "email_config \<Rightarrow> string \<Rightarrow> pydict \<Rightarrow> unit action" where
  "smtp_session email_config now alert =
     and_then (field (sender_email email_config) ''sender_email'') (\<lambda>msg_From.
     and_then (field (recipient_email email_config) ''recipient_email'') (\<lambda>msg_To.
     and_then (item alert ''name'') (\<lambda>subject.
     and_then (item alert ''name'') (\<lambda>body_name.
     and_then (item alert ''severity'') (\<lambda>body_severity.
     and_then (item alert ''current_value'') (\<lambda>body_value.
     and_then (field (smtp_server email_config) ''smtp_server'') (\<lambda>server.
     and_then (field (smtp_port email_config) ''smtp_port'') (\<lambda>port.
     and_then (emit (SmtpConnect server port)) (\<lambda>_.
     and_then (\<lambda>w. if smtp_reachable w then pure () w else raise OSError w) (\<lambda>_.
     and_then (emit SmtpStartTls) (\<lambda>_.
     and_then (field (sender_email email_config) ''sender_email'') (\<lambda>login.
     and_then (field (sender_password email_config) ''sender_password'') (\<lambda>password.
     and_then (emit (SmtpLogin login password)) (\<lambda>_.
     and_then (emit (SmtpSendMessage
                 \<lparr>msg_from = msg_From, msg_to = msg_To, msg_subject = subject,
                  msg_alert = body_name, msg_severity = body_severity,
                  msg_value = body_value, msg_time = now\<rparr>)) (\<lambda>_.
     and_then (emit SmtpQuit) (\<lambda>_.
     emit (Print EmailSent)))))))))))))))))"

definition send_email :: "config \<Rightarrow> string \<Rightarrow> pydict \<Rightarrow> unit action" where
  "send_email config now alert =
     (case email config of
        None \<Rightarrow> pure ()
      | Some email_config \<Rightarrow>
          if \<not> (case enabled email_config of None \<Rightarrow> False | Some b \<Rightarrow> b) then pure ()
          else try_except (smtp_session email_config now alert) (emit (Print EmailFailed)))"

text \<open>
  \<^verbatim>\<open>_save_to_history\<close>; \<open>now\<close> is what \<^verbatim>\<open>datetime.now().isoformat()\<close> returns in
  this call. A missing or undecodable file is the empty history.
\<close>

definition history_path :: "config \<Rightarrow> string" where
  "history_path config =
     (case alert_history config of None \<Rightarrow> ''alert_history.json'' | Some p \<Rightarrow> p)"

definition load_history :: "string \<Rightarrow> jvalue list action" where
  "load_history history_file w =
     (case files w history_file of
        Missing \<Rightarrow> pure [] w
      | Corrupt \<Rightarrow> pure [] w
      | Stored history \<Rightarrow> pure history w)"

definition dump_history :: "string \<Rightarrow> jvalue list \<Rightarrow> unit action" where
  "dump_history history_file history w =
     (if writable w history_file
      then (Inr (), w\<lparr>files := (files w)(history_file := Stored history)\<rparr>)
      else raise OSError w)"

definition save_to_history :: "config \<Rightarrow> string \<Rightarrow> pydict \<Rightarrow> unit action" where
  "save_to_history config now alert =
     (let history_file = history_path config in
      and_then (load_history history_file) (\<lambda>history.
      and_then (item alert ''name'') (\<lambda>alert_name.
      and_then (item alert ''severity'') (\<lambda>alert_severity.
      and_then (item alert ''current_value'') (\<lambda>alert_value.
        let alert_record =
              JDict [(''timestamp'', JStr now), (''name'', alert_name),
                     (''severity'', alert_severity), (''current_value'', alert_value)];
            history = history @ [alert_record];
            history = (if length history > 1000 then slice_from (- 1000) history else history)
        in try_except (dump_history history_file history) (emit (Print HistoryFailed)))))))"

text \<open>\<^verbatim>\<open>_system_notification\<close>.\<close>

definition system_notification :: "pydict \<Rightarrow> unit action" where
  "system_notification alert =
     try_except
       (\<lambda>w.
          if os_name w = ''posix'' then
            and_then (item alert ''name'') (\<lambda>n.
            and_then (item alert ''current_value'') (\<lambda>v. emit (NotifySend n v))) w
          else if os_name w = ''nt'' then emit (Print WindowsNotification) w
          else
            (case uname_sysname w of
               None \<Rightarrow> raise AttributeError w
             | Some sysname \<Rightarrow>
                 if sysname = ''Darwin'' then
                   and_then (item alert ''name'') (\<lambda>n.
                   and_then (item alert ''current_value'') (\<lambda>v. emit (OsaScript n v))) w
                 else pure () w))
       (emit (Print NotificationFailed))"

text \<open>The handlers of the severities and of the topics.\<close>

definition handle_critical :: "config \<Rightarrow> string \<Rightarrow> pydict \<Rightarrow> unit action" where
  "handle_critical config now alert =
     and_then (item alert ''name'') (\<lambda>n.
     and_then (emit (Print (CriticalBanner n))) (\<lambda>_.
     and_then (item alert ''current_value'') (\<lambda>v.
     and_then (emit (Print (CurrentValue v))) (\<lambda>_.
     and_then (item alert ''name'') (\<lambda>n'.
     and_then (item alert ''current_value'') (\<lambda>v'.
     and_then (emit (Log CRITICAL n' v')) (\<lambda>_.
     and_then (send_email config now alert) (\<lambda>_.
     and_then (save_to_history config now alert) (\<lambda>_.
     system_notification alert)))))))))"

definition handle_warning :: "config \<Rightarrow> string \<Rightarrow> pydict \<Rightarrow> unit action" where
  "handle_warning config now alert =
     and_then (item alert ''name'') (\<lambda>n.
     and_then (emit (Print (WarningBanner n))) (\<lambda>_.
     and_then (item alert ''current_value'') (\<lambda>v.
     and_then (emit (Print (CurrentValue v))) (\<lambda>_.
     and_then (item alert ''name'') (\<lambda>n'.
     and_then (item alert ''current_value'') (\<lambda>v'.
     and_then (emit (Log WARNING n' v')) (\<lambda>_.
     save_to_history config now alert)))))))"

definition handle_info :: "pydict \<Rightarrow> unit action" where
  "handle_info alert =
     and_then (item alert ''name'') (\<lambda>n.
     and_then (emit (Print (InfoBanner n))) (\<lambda>_.
     and_then (item alert ''current_value'') (\<lambda>v.
     and_then (emit (Print (CurrentValue v))) (\<lambda>_.
     and_then (item alert ''name'') (\<lambda>n'.
     and_then (item alert ''current_value'') (\<lambda>v'.
     emit (Log INFO n' v')))))))"

definition handle_cpu_alert :: "pydict \<Rightarrow> unit action" where
  "handle_cpu_alert alert = emit (Print CpuAction)"

definition handle_memory_alert :: "pydict \<Rightarrow> unit action" where
  "handle_memory_alert alert = emit (Print MemoryAction)"

definition handle_disk_alert :: "pydict \<Rightarrow> unit action" where
  "handle_disk_alert alert = emit (Print DiskAction)"

text \<open>
  \<^verbatim>\<open>execute\<close>: the chain on the severity, then the chain on the name. \<open>now\<close> is the
  reading of the clock during the call, the same for the email and for the history record.
\<close>

definition severity_branch :: "config \<Rightarrow> string \<Rightarrow> pydict \<Rightarrow> jvalue \<Rightarrow> unit action" where
  "severity_branch config now alert sev =
     (if sev = JStr ''critical'' then handle_critical config now alert
      else if sev = JStr ''warning'' then handle_warning config now alert
      else if sev = JStr ''info'' then handle_info alert
      else pure ())"

definition topic_branch :: "pydict \<Rightarrow> jvalue \<Rightarrow> unit action" where
  "topic_branch alert alert_name =
     and_then (py_in ''CPU'' alert_name) (\<lambda>is_cpu.
       if is_cpu then handle_cpu_alert alert
       else
         and_then (py_in ''Memory'' alert_name) (\<lambda>is_memory.
         and_then (if is_memory then pure True else py_in ''RAM'' alert_name) (\<lambda>is_mem_or_ram.
           if is_mem_or_ram then handle_memory_alert alert
           else
             and_then (py_in ''Disk'' alert_name) (\<lambda>is_disk.
               if is_disk then handle_disk_alert alert else pure ()))))"

definition execute :: "config \<Rightarrow> string \<Rightarrow> pydict \<Rightarrow> unit action" where
  "execute config now alert =
     (let sev = (case map_of alert ''severity'' of None \<Rightarrow> JStr ''info'' | Some v \<Rightarrow> v);
          alert_name = (case map_of alert ''name'' of None \<Rightarrow> JStr ''Unknown Alert'' | Some v \<Rightarrow> v)
      in and_then (severity_branch config now alert sev) (\<lambda>_. topic_branch alert alert_name))"

text \<open>\<^verbatim>\<open>get_alert_history\<close>: the list returned and the world left.\<close>

definition get_alert_history :: "config \<Rightarrow> int \<Rightarrow> world \<Rightarrow> jvalue list \<times> world" where
  "get_alert_history config limit w =
     (let history_file = history_path config in
      case files w history_file of
        Missing \<Rightarrow> ([], w)
      | Corrupt \<Rightarrow> ([], w\<lparr>trace := trace w @ [Print HistoryReadError]\<rparr>)
      | Stored history \<Rightarrow> ((if limit \<noteq> 0 then slice_from (- limit) history else history), w))"

text \<open>
  Appending records one at a time: \<^verbatim>\<open>_save_to_history\<close> called for each alert of a list,
  each call with its own reading of the clock.
\<close>

fun save_all :: "config \<Rightarrow> (string \<times> pydict) list \<Rightarrow> unit action" where
  "save_all config [] = pure ()"
| "save_all config ((now, alert) # rest) =
     and_then (save_to_history config now alert) (\<lambda>_. save_all config rest)"

text \<open>The last \<open>n\<close> elements of a list, in their order.\<close>

definition last_n :: "nat \<Rightarrow> 'a list \<Rightarrow> 'a list" where
  "last_n n xs = rev (take n (rev xs))"

text \<open>Email delivery is enabled in the configuration.\<close>

definition email_enabled :: "config \<Rightarrow> bool" where
  "email_enabled config =
     (case email config of
        None \<Rightarrow> False
      | Some email_config \<Rightarrow> (case enabled email_config of None \<Rightarrow> False | Some b \<Rightarrow> b))"

text \<open>
  The records a history file holds for \<^verbatim>\<open>_save_to_history\<close>, and the record of an alert
  that has the keys \<^verbatim>\<open>name\<close>, \<^verbatim>\<open>severity\<close> and \<^verbatim>\<open>current_value\<close>.
\<close>

definition records_of :: "json_file \<Rightarrow> jvalue list" where
  "records_of f = (case f of Stored history \<Rightarrow> history | _ \<Rightarrow> [])"

definition value_of :: "pydict \<Rightarrow> string \<Rightarrow> jvalue" where
  "value_of d key = (case map_of d key of None \<Rightarrow> JNone | Some v \<Rightarrow> v)"

definition alert_record :: "string \<Rightarrow> pydict \<Rightarrow> jvalue" where
  "alert_record now alert =
     JDict [(''timestamp'', JStr now), (''name'', value_of alert ''name''),
            (''severity'', value_of alert ''severity''),
            (''current_value'', value_of alert ''current_value'')]"

definition has_keys :: "pydict \<Rightarrow> bool" where
  "has_keys alert =
     (map_of alert ''name'' \<noteq> None \<and> map_of alert ''severity'' \<noteq> None \<and>
      map_of alert ''current_value'' \<noteq> None)"

text \<open>
  An action that leaves every file and the answers of the environment as they are and adds
  no network effect to the trace.
\<close>

definition preserves :: "'a action \<Rightarrow> bool" where
  "preserves m =
     (\<forall>w. files (snd (m w)) = files w \<and> writable (snd (m w)) = writable w \<and>
          filter is_network (trace (snd (m w))) = filter is_network (trace w))"

text \<open>
  The configuration \<^verbatim>\<open>_create_default_config\<close> writes, and a world with no file yet.
\<close>

definition default_config :: config where
  "default_config =
     \<lparr>email = Some \<lparr>enabled = Some False, smtp_server = Some ''smtp.gmail.com'',
                     smtp_port = Some 587, sender_email = Some ''your-email@gmail.com'',
                     sender_password = Some ''your-app-password'',
                     recipient_email = Some ''admin@example.com''\<rparr>,
      log_file = Some ''system_alerts.log'', alert_history = Some ''alert_history.json''\<rparr>"

definition fresh_world :: world where
  "fresh_world =
     \<lparr>files = (\<lambda>path. Missing), writable = (\<lambda>path. True), smtp_reachable = True,
      os_name = ''posix'', uname_sysname = Some ''Linux'', trace = []\<rparr>"

section \<open>Properties\<close>

subsection \<open>Path resolution\<close>

lemma resolves_get_nested_loop: "resolves d ks v \<Longrightarrow> get_nested_loop d ks = v"
  by (induction rule: resolves.induct) simp_all

lemma get_nested_loop_resolves:
  "get_nested_loop d ks \<noteq> JNone \<Longrightarrow> resolves d ks (get_nested_loop d ks)"
proof (induction ks arbitrary: d)
  case Nil
  show ?case by (simp add: resolves_here)
next
  case (Cons k ks)
  from Cons.prems obtain m v where d: "d = JDict m" and m: "map_of m k = Some v"
    by (auto split: jvalue.splits option.splits)
  with Cons.prems have "get_nested_loop v ks \<noteq> JNone" by simp
  then have "resolves v ks (get_nested_loop v ks)" by (rule Cons.IH)
  with d m show ?case by (simp add: resolves_step)
qed

lemma resolves_if_loop:
  "get_nested_loop d ks = v \<Longrightarrow> v \<noteq> JNone \<Longrightarrow> resolves d ks v"
  using get_nested_loop_resolves by blast

lemma unresolved_get_nested_loop:
  "\<forall>v. resolves d ks v \<longrightarrow> v = JNone \<Longrightarrow> get_nested_loop d ks = JNone"
  using get_nested_loop_resolves by blast

subsection \<open>The operators\<close>

lemma operators_known:
  "operator \<in> {''>'', ''<'', ''>='', ''<='', ''=='', ''!=''} \<Longrightarrow> as_number v = Some x \<Longrightarrow>
   (case operators operator of Some op_func \<Rightarrow> op_func v t | None \<Rightarrow> Inr False) =
   Inr (direct_comparison operator x t)"
  by (auto simp: operators_def direct_comparison_def py_gt_def py_lt_def py_ge_def py_le_def
      py_eq_def py_ne_def)

lemma operators_unknown:
  "operator \<notin> {''>'', ''<'', ''>='', ''<='', ''=='', ''!=''} \<Longrightarrow> operators operator = None"
  by (simp add: operators_def)

lemma as_number_not_None: "as_number v = Some x \<Longrightarrow> v \<noteq> JNone"
  by auto

subsection \<open>Rule evaluation\<close>

text \<open>
  C1. A condition of exactly three tokens whose metric path resolves in the snapshot to a
  number \<open>x\<close>: where the threshold token is a float literal of value \<open>t\<close>, \<open>evaluate\<close>
  returns the direct comparison \<open>x <op> t\<close> when the operator is one of the six, and false
  for any other operator token. (Where \<^verbatim>\<open>float\<close> rejects the threshold token, the
  ValueError of the conversion is the outcome.)
\<close>

theorem evaluate_direct_comparison:
  assumes parts: "str_split cond = [metric_path, operator, threshold]"
    and path: "resolves stats (str_split_sep (CHR ''.'') metric_path) v"
    and num: "as_number v = Some x"
  shows "evaluate flt cond stats =
         (case flt threshold of
            None \<Rightarrow> Inl ValueError
          | Some t \<Rightarrow>
              Inr (if operator \<in> {''>'', ''<'', ''>='', ''<='', ''=='', ''!=''}
                   then direct_comparison operator x t else False))"
proof -
  have cur: "get_nested_value stats metric_path = v"
    using path by (simp add: get_nested_value_def resolves_get_nested_loop)
  have nn: "v \<noteq> JNone" using num by (rule as_number_not_None)
  show ?thesis
  proof (cases "flt threshold")
    case None
    then show ?thesis by (simp add: evaluate_def parts)
  next
    case (Some t)
    show ?thesis
    proof (cases "operator \<in> {''>'', ''<'', ''>='', ''<='', ''=='', ''!=''}")
      case True
      from operators_known[OF True num, of t] Some cur nn True show ?thesis
        by (simp add: evaluate_def parts)
    next
      case False
      from operators_unknown[OF False] Some cur nn False show ?thesis
        by (simp add: evaluate_def parts)
    qed
  qed
qed

text \<open>
  C1 at the snapshot \<^verbatim>\<open>{"cpu": {"usage": 97.5}}\<close>: \<^verbatim>\<open>cpu.usage > 95\<close> holds, and the
  operator token \<^verbatim>\<open>~\<close> is none of the six.
\<close>

theorem evaluate_direct_comparison_witness:
  "evaluate float_literal ''cpu.usage > 95''
     (JDict [(''cpu'', JDict [(''usage'', JFloat (Finite 97.5))])]) = Inr True
   \<and> evaluate float_literal ''cpu.usage ~ 95''
     (JDict [(''cpu'', JDict [(''usage'', JInt 97)])]) = Inr False"
proof -
  have p1: "str_split ''cpu.usage > 95'' = [''cpu.usage'', ''>'', ''95'']"
    by (simp add: str_split_def isspace_def)
  have p2: "str_split ''cpu.usage ~ 95'' = [''cpu.usage'', ''~'', ''95'']"
    by (simp add: str_split_def isspace_def)
  have k: "str_split_sep (CHR ''.'') ''cpu.usage'' = [''cpu'', ''usage'']"
    by (simp add: str_split_sep_def)
  have r1: "resolves (JDict [(''cpu'', JDict [(''usage'', JFloat (Finite 97.5))])])
              (str_split_sep (CHR ''.'') ''cpu.usage'') (JFloat (Finite 97.5))"
    unfolding k by (rule resolves_if_loop) simp_all
  have r2: "resolves (JDict [(''cpu'', JDict [(''usage'', JInt 97)])])
              (str_split_sep (CHR ''.'') ''cpu.usage'') (JInt 97)"
    unfolding k by (rule resolves_if_loop) simp_all
  have n1: "as_number (JFloat (Finite 97.5)) = Some (Finite 97.5)" by simp
  have n2: "as_number (JInt 97) = Some (Finite 97)" by simp
  have f: "float_literal ''95'' = Some (Finite 95)" by (simp add: float_literal_def)
  from evaluate_direct_comparison[OF p1 r1 n1, of float_literal]
       evaluate_direct_comparison[OF p2 r2 n2, of float_literal]
  show ?thesis by (simp add: f direct_comparison_def)
qed

text \<open>
  C2, as amended. A condition that does not split into exactly three tokens evaluates to
  false. A condition of three tokens whose threshold token is a float literal evaluates
  to false when its metric path does not resolve in the snapshot (a segment is absent or
  a value on the way is not a mapping) or resolves to None. No exception is raised in
  either case.
\<close>

theorem evaluate_soft_fail:
  assumes "length (str_split cond) \<noteq> 3 \<or>
           (\<exists>metric_path operator threshold t.
              str_split cond = [metric_path, operator, threshold] \<and> flt threshold = Some t \<and>
              (\<forall>v. resolves stats (str_split_sep (CHR ''.'') metric_path) v \<longrightarrow> v = JNone))"
  shows "evaluate flt cond stats = Inr False"
  using assms
proof
  assume "length (str_split cond) \<noteq> 3"
  then show ?thesis by (simp add: evaluate_def)
next
  assume "\<exists>metric_path operator threshold t.
              str_split cond = [metric_path, operator, threshold] \<and> flt threshold = Some t \<and>
              (\<forall>v. resolves stats (str_split_sep (CHR ''.'') metric_path) v \<longrightarrow> v = JNone)"
  then obtain metric_path operator threshold t where
    parts: "str_split cond = [metric_path, operator, threshold]" and t: "flt threshold = Some t"
    and un: "\<forall>v. resolves stats (str_split_sep (CHR ''.'') metric_path) v \<longrightarrow> v = JNone"
    by blast
  have "get_nested_value stats metric_path = JNone"
    unfolding get_nested_value_def using un by (rule unresolved_get_nested_loop)
  with parts t show ?thesis by (simp add: evaluate_def)
qed

text \<open>
  C2 as amended, at a condition of two tokens, at a path whose last segment is absent and
  at a path that goes through a number.
\<close>

theorem evaluate_soft_fail_witness:
  "evaluate float_literal ''cpu.usage >'' (JDict [(''cpu'', JDict [(''usage'', JFloat (Finite 97.5))])]) = Inr False
   \<and> evaluate float_literal ''cpu.missing > 95'' (JDict [(''cpu'', JDict [(''usage'', JFloat (Finite 97.5))])]) = Inr False
   \<and> evaluate float_literal ''cpu.usage.deep > 95'' (JDict [(''cpu'', JDict [(''usage'', JFloat (Finite 97.5))])]) = Inr False"
proof -
  let ?stats = "JDict [(''cpu'', JDict [(''usage'', JFloat (Finite 97.5))])]"
  have h1: "length (str_split ''cpu.usage >'') \<noteq> 3"
    by (simp add: str_split_def isspace_def)
  have p2: "str_split ''cpu.missing > 95'' = [''cpu.missing'', ''>'', ''95'']"
    by (simp add: str_split_def isspace_def)
  have p3: "str_split ''cpu.usage.deep > 95'' = [''cpu.usage.deep'', ''>'', ''95'']"
    by (simp add: str_split_def isspace_def)
  have f: "float_literal ''95'' = Some (Finite 95)" by (simp add: float_literal_def)
  have u2: "\<forall>v. resolves ?stats (str_split_sep (CHR ''.'') ''cpu.missing'') v \<longrightarrow> v = JNone"
    by (auto dest!: resolves_get_nested_loop simp: str_split_sep_def)
  have u3: "\<forall>v. resolves ?stats (str_split_sep (CHR ''.'') ''cpu.usage.deep'') v \<longrightarrow> v = JNone"
    by (auto dest!: resolves_get_nested_loop simp: str_split_sep_def)
  have a: "evaluate float_literal ''cpu.usage >'' ?stats = Inr False"
    by (rule evaluate_soft_fail) (use h1 in blast)
  have b: "evaluate float_literal ''cpu.missing > 95'' ?stats = Inr False"
    by (rule evaluate_soft_fail) (use p2 f u2 in blast)
  have c: "evaluate float_literal ''cpu.usage.deep > 95'' ?stats = Inr False"
    by (rule evaluate_soft_fail) (use p3 f u3 in blast)
  from a b c show ?thesis by blast
qed

text \<open>
  C2 as stated fails. The path \<^verbatim>\<open>temp.status\<close> resolves to a string, the status the
  metric source reports without sensors: the condition \<^verbatim>\<open>temp.status != 5\<close> is then
  true and \<^verbatim>\<open>temp.status > 5\<close> raises TypeError. With the threshold token \<^verbatim>\<open>abc\<close>
  the conversion raises ValueError although the path is absent from the snapshot.
\<close>

theorem evaluate_soft_fail_counterexample:
  "resolves (JDict [(''temp'', JDict [(''status'', JStr ''No temperature sensors found'')])])
     (str_split_sep (CHR ''.'') ''temp.status'') (JStr ''No temperature sensors found'')
   \<and> evaluate float_literal ''temp.status != 5''
       (JDict [(''temp'', JDict [(''status'', JStr ''No temperature sensors found'')])]) = Inr True
   \<and> evaluate float_literal ''temp.status > 5''
       (JDict [(''temp'', JDict [(''status'', JStr ''No temperature sensors found'')])]) = Inl TypeError
   \<and> evaluate float_literal ''cpu.missing > abc'' (JDict []) = Inl ValueError"
proof -
  have k: "str_split_sep (CHR ''.'') ''temp.status'' = [''temp'', ''status'']"
    by (simp add: str_split_sep_def)
  have r: "resolves (JDict [(''temp'', JDict [(''status'', JStr ''No temperature sensors found'')])])
     (str_split_sep (CHR ''.'') ''temp.status'') (JStr ''No temperature sensors found'')"
    unfolding k by (rule resolves_if_loop) simp_all
  have a: "evaluate float_literal ''temp.status != 5''
       (JDict [(''temp'', JDict [(''status'', JStr ''No temperature sensors found'')])]) = Inr True"
    by (simp add: evaluate_def str_split_def isspace_def float_literal_def get_nested_value_def
        str_split_sep_def operators_def py_ne_def)
  have b: "evaluate float_literal ''temp.status > 5''
       (JDict [(''temp'', JDict [(''status'', JStr ''No temperature sensors found'')])]) = Inl TypeError"
    by (simp add: evaluate_def str_split_def isspace_def float_literal_def get_nested_value_def
        str_split_sep_def operators_def py_gt_def)
  have c: "evaluate float_literal ''cpu.missing > abc'' (JDict []) = Inl ValueError"
    by (simp add: evaluate_def str_split_def isspace_def float_literal_def)
  from r a b c show ?thesis by blast
qed

subsection \<open>The display value\<close>

text \<open>
  The instance \<open>py_round\<close> of the builtin is a rounding to the given number of decimals:
  its result is a multiple of \<open>10\<close> to the power \<open>- ndigits\<close>, at most half of that unit
  away from the value.
\<close>

lemma round_half_even_close: "\<bar>of_int (round_half_even y) - y\<bar> \<le> 1 / 2"
proof -
  have "of_int \<lfloor>y\<rfloor> \<le> y" "y < of_int \<lfloor>y\<rfloor> + 1" by linarith+
  then show ?thesis by (auto simp: round_half_even_def Let_def)
qed

lemma py_round_decimals:
  assumes "0 \<le> ndigits"
  shows "\<exists>k :: int. py_round (Finite x) ndigits = Finite (of_int k / 10 ^ nat ndigits) \<and>
           \<bar>of_int k / 10 ^ nat ndigits - x\<bar> \<le> 1 / (2 * 10 ^ nat ndigits)"
proof -
  let ?s = "(10 :: real) ^ nat ndigits"
  let ?k = "round_half_even (x * ?s)"
  have pos: "0 < ?s" by simp
  have "\<bar>of_int ?k - x * ?s\<bar> \<le> 1 / 2" by (rule round_half_even_close)
  then have "\<bar>of_int ?k - x * ?s\<bar> / ?s \<le> (1 / 2) / ?s"
    using pos by (intro divide_right_mono) simp_all
  moreover have "\<bar>of_int ?k - x * ?s\<bar> / ?s = \<bar>of_int ?k / ?s - x\<bar>"
  proof -
    have "of_int ?k / ?s - x = (of_int ?k - x * ?s) / ?s" using pos by (simp add: field_simps)
    then show ?thesis using pos by (simp add: abs_divide)
  qed
  ultimately have "\<bar>of_int ?k / ?s - x\<bar> \<le> 1 / (2 * ?s)" by simp
  moreover have "py_round (Finite x) ndigits = Finite (of_int ?k / ?s)"
    using assms by (simp add: scale10_def)
  ultimately show ?thesis by blast
qed

text \<open>
  C5. Where the metric path of the condition resolves in the snapshot, \<open>extract_value\<close>
  returns the value rounded to two decimals when it is a float, that is the result of the
  builtin \<^verbatim>\<open>round\<close> on the value and the number of digits 2, and the value itself when
  it is an int.
\<close>

theorem extract_value_rounds_floats:
  assumes parts: "str_split cond = metric_path # rest"
    and path: "resolves stats (str_split_sep (CHR ''.'') metric_path) v"
  shows "(\<forall>x. v = JFloat x \<longrightarrow> extract_value rnd cond stats = Inr (JFloat (rnd x 2))) \<and>
         (\<forall>n. v = JInt n \<longrightarrow> extract_value rnd cond stats = Inr (JInt n))"
proof -
  have cur: "get_nested_value stats metric_path = v"
    using path by (simp add: get_nested_value_def resolves_get_nested_loop)
  show ?thesis by (simp add: extract_value_def parts cur)
qed

text \<open>
  C5 at the float \<open>0.751953125\<close>, displayed as \<open>0.75\<close>, and at the int \<open>16\<close>.
\<close>

theorem extract_value_rounds_floats_witness:
  "extract_value py_round ''cpu.usage > 80''
     (JDict [(''cpu'', JDict [(''usage'', JFloat (Finite (385 / 512)))])]) = Inr (JFloat (Finite (3 / 4)))
   \<and> extract_value py_round ''ram.total > 8''
     (JDict [(''ram'', JDict [(''total'', JInt 16)])]) = Inr (JInt 16)"
proof -
  have p1: "str_split ''cpu.usage > 80'' = ''cpu.usage'' # [''>'', ''80'']"
    by (simp add: str_split_def isspace_def)
  have p2: "str_split ''ram.total > 8'' = ''ram.total'' # [''>'', ''8'']"
    by (simp add: str_split_def isspace_def)
  have r1: "resolves (JDict [(''cpu'', JDict [(''usage'', JFloat (Finite (385 / 512)))])])
              (str_split_sep (CHR ''.'') ''cpu.usage'') (JFloat (Finite (385 / 512)))"
    by (rule resolves_if_loop) (simp_all add: str_split_sep_def)
  have r2: "resolves (JDict [(''ram'', JDict [(''total'', JInt 16)])])
              (str_split_sep (CHR ''.'') ''ram.total'') (JInt 16)"
    by (rule resolves_if_loop) (simp_all add: str_split_sep_def)
  from extract_value_rounds_floats[OF p1 r1, of py_round]
       extract_value_rounds_floats[OF p2 r2, of py_round]
  show ?thesis by (simp add: round_half_even_def scale10_def)
qed

subsection \<open>The check pass\<close>

lemma evaluate_True_extract:
  assumes "evaluate flt c stats = Inr True"
  shows "\<exists>v. extract_value rnd c stats = Inr v"
proof -
  from assms have "length (str_split c) = 3"
    by (auto simp: evaluate_def Let_def split: if_splits)
  then obtain p rest where "str_split c = p # rest"
    by (cases "str_split c") auto
  then show ?thesis
    by (simp add: extract_value_def split: jvalue.splits)
qed

lemma check_loop_returns:
  assumes "\<forall>r \<in> set rules. \<exists>b. evaluate flt (r_condition (snd r)) stats = Inr b"
  shows "\<exists>alerts. check_loop flt rnd rules stats acc = Inr (acc @ alerts) \<and>
           list_all2
             (\<lambda>alert r. \<exists>v. extract_value rnd (r_condition (snd r)) stats = Inr v \<and>
                alert = [(''name'', JStr (r_name (snd r))),
                         (''severity'', JStr (r_severity (snd r))), (''current_value'', v)])
             alerts
             (filter (\<lambda>r. evaluate flt (r_condition (snd r)) stats = Inr True) rules)"
  using assms
proof (induction rules arbitrary: acc)
  case Nil
  then show ?case by simp
next
  case (Cons a rules)
  obtain rid r where a: "a = (rid, r)" by (cases a)
  from Cons.prems a obtain b where b: "evaluate flt (r_condition r) stats = Inr b" by auto
  from Cons.prems have rest: "\<forall>r \<in> set rules. \<exists>b. evaluate flt (r_condition (snd r)) stats = Inr b"
    by simp
  show ?case
  proof (cases b)
    case False
    from Cons.IH[OF rest, of acc] obtain alerts where
      "check_loop flt rnd rules stats acc = Inr (acc @ alerts)"
      "list_all2
             (\<lambda>alert r. \<exists>v. extract_value rnd (r_condition (snd r)) stats = Inr v \<and>
                alert = [(''name'', JStr (r_name (snd r))),
                         (''severity'', JStr (r_severity (snd r))), (''current_value'', v)])
             alerts
             (filter (\<lambda>r. evaluate flt (r_condition (snd r)) stats = Inr True) rules)"
      by blast
    with a b False show ?thesis by simp
  next
    case True
    with b have t: "evaluate flt (r_condition r) stats = Inr True" by simp
    from evaluate_True_extract[OF t, of rnd] obtain v where
      v: "extract_value rnd (r_condition r) stats = Inr v" by blast
    let ?al = "[(''name'', JStr (r_name r)), (''severity'', JStr (r_severity r)), (''current_value'', v)]"
    from Cons.IH[OF rest, of "acc @ [?al]"] obtain alerts where
      c: "check_loop flt rnd rules stats (acc @ [?al]) = Inr ((acc @ [?al]) @ alerts)" and
      l: "list_all2
             (\<lambda>alert r. \<exists>v. extract_value rnd (r_condition (snd r)) stats = Inr v \<and>
                alert = [(''name'', JStr (r_name (snd r))),
                         (''severity'', JStr (r_severity (snd r))), (''current_value'', v)])
             alerts
             (filter (\<lambda>r. evaluate flt (r_condition (snd r)) stats = Inr True) rules)"
      by blast
    have "check_loop flt rnd (a # rules) stats acc = Inr (acc @ (?al # alerts))"
      using a t v c by simp
    moreover have "list_all2
             (\<lambda>alert r. \<exists>v. extract_value rnd (r_condition (snd r)) stats = Inr v \<and>
                alert = [(''name'', JStr (r_name (snd r))),
                         (''severity'', JStr (r_severity (snd r))), (''current_value'', v)])
             (?al # alerts)
             (filter (\<lambda>r. evaluate flt (r_condition (snd r)) stats = Inr True) (a # rules))"
      using a t v l by simp
    ultimately show ?thesis by blast
  qed
qed

text \<open>
  C3, as amended. For every rule store and snapshot on which \<open>evaluate\<close> raises for no
  rule, \<open>check\<close> returns a list that holds, in the order of the store, exactly one alert
  for each rule whose condition evaluates to true: the rule's display name, its severity
  and the value \<open>extract_value\<close> reads from the snapshot.
\<close>

theorem check_one_alert_per_triggered_rule:
  assumes "\<forall>r \<in> set rules. \<exists>b. evaluate flt (r_condition (snd r)) stats = Inr b"
  shows "\<exists>alerts. check flt rnd rules stats = Inr alerts \<and>
           list_all2
             (\<lambda>alert r. \<exists>v. extract_value rnd (r_condition (snd r)) stats = Inr v \<and>
                alert = [(''name'', JStr (r_name (snd r))),
                         (''severity'', JStr (r_severity (snd r))), (''current_value'', v)])
             alerts
             (filter (\<lambda>r. evaluate flt (r_condition (snd r)) stats = Inr True) rules)"
  using check_loop_returns[OF assms, of rnd "[]"] by (simp add: check_def)

text \<open>
  C3 at the snapshot \<^verbatim>\<open>{"cpu": {"usage": 97.5}}\<close> with the single rule
  \<^verbatim>\<open>cpu.usage > 95\<close> of severity critical: one alert, with the value 97.5.
\<close>

theorem check_one_alert_per_triggered_rule_witness:
  "check float_literal py_round
     [(''cpu_critical'',
       \<lparr>r_name = ''Critical CPU Usage'', r_condition = ''cpu.usage > 95'', r_severity = ''critical''\<rparr>)]
     (JDict [(''cpu'', JDict [(''usage'', JFloat (Finite 97.5))])]) =
   Inr [[(''name'', JStr ''Critical CPU Usage''), (''severity'', JStr ''critical''),
         (''current_value'', JFloat (Finite 97.5))]]"
proof -
  let ?stats = "JDict [(''cpu'', JDict [(''usage'', JFloat (Finite 97.5))])]"
  let ?rules = "[(''cpu_critical'',
       \<lparr>r_name = ''Critical CPU Usage'', r_condition = ''cpu.usage > 95'', r_severity = ''critical''\<rparr>)]"
  have ev: "evaluate float_literal ''cpu.usage > 95'' ?stats = Inr True"
    by (simp add: evaluate_def str_split_def isspace_def float_literal_def get_nested_value_def
        str_split_sep_def operators_def py_gt_def)
  have ex: "extract_value py_round ''cpu.usage > 95'' ?stats = Inr (JFloat (Finite 97.5))"
    by (simp add: extract_value_def str_split_def isspace_def get_nested_value_def
        str_split_sep_def round_half_even_def scale10_def)
  have hyp: "\<forall>r \<in> set ?rules. \<exists>b. evaluate float_literal (r_condition (snd r)) ?stats = Inr b"
    using ev by auto
  from check_one_alert_per_triggered_rule[OF hyp, of py_round]
  show ?thesis using ev ex by (auto simp: list_all2_Cons2)
qed

text \<open>
  C3 as stated fails: a rule on the list \<^verbatim>\<open>cpu.per_core\<close> of the snapshot makes
  \<open>evaluate\<close> raise TypeError, and \<open>check\<close> returns no list.
\<close>

theorem check_raises_counterexample:
  "check float_literal py_round
     [(''core_high'',
       \<lparr>r_name = ''High Core Usage'', r_condition = ''cpu.per_core > 90'', r_severity = ''warning''\<rparr>)]
     (JDict [(''cpu'', JDict [(''usage'', JFloat (Finite 85.5)),
                              (''per_core'', JList [JFloat (Finite 82), JFloat (Finite 88)])])]) =
   Inl TypeError"
  by (simp add: check_def evaluate_def str_split_def isspace_def float_literal_def
      get_nested_value_def str_split_sep_def operators_def py_gt_def)

section \<open>Properties of the dispatcher\<close>

subsection \<open>Lists and frames\<close>

lemma last_n_drop: "last_n n xs = drop (length xs - n) xs"
  by (simp add: last_n_def rev_take)

lemma last_n_all: "length xs \<le> n \<Longrightarrow> last_n n xs = xs"
  by (simp add: last_n_drop)

lemma length_last_n: "length (last_n n xs) = min (length xs) n"
  by (simp add: last_n_drop)

lemma last_n_append_last_n: "last_n n (last_n n xs @ ys) = last_n n (xs @ ys)"
proof -
  have "take n (rev ys @ take n (rev xs)) = take n (rev ys @ rev xs)"
    by (simp add: min_def)
  then show ?thesis by (simp add: last_n_def)
qed

lemma trim_last_n:
  "(if length h > 1000 then slice_from (- 1000) h else h) = last_n 1000 h"
  by (simp add: slice_from_def last_n_drop nat_diff_distrib')

lemma preserves_pure: "preserves (pure x)"
  by (simp add: preserves_def pure_def)

lemma preserves_raise: "preserves (raise e)"
  by (simp add: preserves_def raise_def)

lemma preserves_emit: "\<not> is_network e \<Longrightarrow> preserves (emit e)"
  by (simp add: preserves_def emit_def)

lemma preserves_and_then:
  assumes "preserves m" and "\<And>x. preserves (f x)"
  shows "preserves (and_then m f)"
  unfolding preserves_def
proof
  fix w
  show "files (snd (and_then m f w)) = files w \<and> writable (snd (and_then m f w)) = writable w \<and>
        filter is_network (trace (snd (and_then m f w))) = filter is_network (trace w)"
  proof (cases "m w")
    case (Pair r w')
    from assms(1) Pair have m: "files w' = files w" "writable w' = writable w"
      "filter is_network (trace w') = filter is_network (trace w)"
      by (auto simp: preserves_def dest: spec[of _ w])
    show ?thesis
    proof (cases r)
      case (Inl e)
      with Pair m show ?thesis by (simp add: and_then_def)
    next
      case (Inr x)
      from assms(2)[of x] have "files (snd (f x w')) = files w'" "writable (snd (f x w')) = writable w'"
        "filter is_network (trace (snd (f x w'))) = filter is_network (trace w')"
        by (auto simp: preserves_def)
      with Pair Inr m show ?thesis by (simp add: and_then_def)
    qed
  qed
qed

lemma preserves_try_except:
  assumes "preserves body" and "preserves handler"
  shows "preserves (try_except body handler)"
  unfolding preserves_def
proof
  fix w
  show "files (snd (try_except body handler w)) = files w \<and>
        writable (snd (try_except body handler w)) = writable w \<and>
        filter is_network (trace (snd (try_except body handler w))) = filter is_network (trace w)"
  proof (cases "body w")
    case (Pair r w')
    from assms(1) Pair have m: "files w' = files w" "writable w' = writable w"
      "filter is_network (trace w') = filter is_network (trace w)"
      by (auto simp: preserves_def dest: spec[of _ w])
    from assms(2) have h: "files (snd (handler w')) = files w'"
      "writable (snd (handler w')) = writable w'"
      "filter is_network (trace (snd (handler w'))) = filter is_network (trace w')"
      by (auto simp: preserves_def)
    from Pair m h show ?thesis by (cases r) (simp_all add: try_except_def)
  qed
qed

lemma preserves_item: "preserves (item d key)"
  by (simp add: item_def preserves_pure preserves_raise split: option.splits)

lemma preserves_py_in: "preserves (py_in sub x)"
  by (cases x) (simp_all add: py_in_def preserves_pure preserves_raise)

lemma preserves_handle_info: "preserves (handle_info alert)"
  unfolding handle_info_def
  by (intro preserves_and_then preserves_item preserves_emit) simp_all

lemma preserves_topic_branch: "preserves (topic_branch alert alert_name)"
  unfolding topic_branch_def handle_cpu_alert_def handle_memory_alert_def handle_disk_alert_def
  by (auto intro!: preserves_and_then preserves_py_in preserves_emit preserves_pure)

lemma preserves_system_notification: "preserves (system_notification alert)"
  unfolding system_notification_def
proof (rule preserves_try_except)
  show "preserves (emit (Print NotificationFailed))" by (simp add: preserves_emit)
next
  have a: "preserves (and_then (item alert ''name'') (\<lambda>n.
            and_then (item alert ''current_value'') (\<lambda>v. emit (NotifySend n v))))"
    by (intro preserves_and_then preserves_item preserves_emit) simp_all
  have b: "preserves (and_then (item alert ''name'') (\<lambda>n.
            and_then (item alert ''current_value'') (\<lambda>v. emit (OsaScript n v))))"
    by (intro preserves_and_then preserves_item preserves_emit) simp_all
  have c: "preserves (emit (Print WindowsNotification))" by (simp add: preserves_emit)
  have d: "preserves (raise AttributeError :: unit action)" by (rule preserves_raise)
  have e: "preserves (pure () :: unit action)" by (rule preserves_pure)
  show "preserves (\<lambda>w.
          if os_name w = ''posix'' then
            and_then (item alert ''name'') (\<lambda>n.
            and_then (item alert ''current_value'') (\<lambda>v. emit (NotifySend n v))) w
          else if os_name w = ''nt'' then emit (Print WindowsNotification) w
          else
            (case uname_sysname w of
               None \<Rightarrow> raise AttributeError w
             | Some sysname \<Rightarrow>
                 if sysname = ''Darwin'' then
                   and_then (item alert ''name'') (\<lambda>n.
                   and_then (item alert ''current_value'') (\<lambda>v. emit (OsaScript n v))) w
                 else pure () w))"
    using a b c d e unfolding preserves_def by (auto split: option.splits)
qed

subsection \<open>Substrings\<close>

lemma starts_with_iff: "starts_with p s \<longleftrightarrow> (\<exists>post. s = p @ post)"
  by (induction p s rule: starts_with.induct) auto

lemma str_contains_iff: "str_contains sub s \<longleftrightarrow> (\<exists>pre post. s = pre @ sub @ post)"
proof (induction s)
  case Nil
  show ?case by auto
next
  case (Cons c cs)
  show ?case
  proof
    assume "str_contains sub (c # cs)"
    then consider "starts_with sub (c # cs)" | "str_contains sub cs" by auto
    then show "\<exists>pre post. c # cs = pre @ sub @ post"
    proof cases
      case 1
      then obtain post where "c # cs = sub @ post" by (auto simp: starts_with_iff)
      then have "c # cs = [] @ sub @ post" by simp
      then show ?thesis by blast
    next
      case 2
      with Cons.IH obtain pre post where "cs = pre @ sub @ post" by blast
      then have "c # cs = (c # pre) @ sub @ post" by simp
      then show ?thesis by blast
    qed
  next
    assume "\<exists>pre post. c # cs = pre @ sub @ post"
    then obtain pre post where eq: "c # cs = pre @ sub @ post" by blast
    show "str_contains sub (c # cs)"
    proof (cases pre)
      case Nil
      with eq have "starts_with sub (c # cs)" by (auto simp: starts_with_iff)
      then show ?thesis by simp
    next
      case (Cons a pre')
      with eq have "cs = pre' @ sub @ post" by simp
      with Cons.IH have "str_contains sub cs" by blast
      then show ?thesis by simp
    qed
  qed
qed

subsection \<open>The info handler\<close>

lemma handle_info_run:
  assumes "map_of alert ''name'' = Some n" and "map_of alert ''current_value'' = Some v"
  shows "handle_info alert w =
         (Inr (), w\<lparr>trace := trace w @ [Print (InfoBanner n), Print (CurrentValue v), Log INFO n v]\<rparr>)"
  using assms by (simp add: handle_info_def and_then_def item_def pure_def emit_def)

lemma handle_info_severity_key:
  "handle_info ((''severity'', s) # alert) = handle_info alert"
  by (simp add: handle_info_def item_def)

lemma topic_branch_alert: "topic_branch alert' x = topic_branch alert x"
  unfolding topic_branch_def handle_cpu_alert_def handle_memory_alert_def handle_disk_alert_def
  by (rule refl)

lemma topic_branch_str:
  "topic_branch alert (JStr s) w =
   (Inr (), w\<lparr>trace := trace w @
      (if str_contains ''CPU'' s then [Print CpuAction]
       else if str_contains ''Memory'' s \<or> str_contains ''RAM'' s then [Print MemoryAction]
       else if str_contains ''Disk'' s then [Print DiskAction]
       else [])\<rparr>)"
  unfolding topic_branch_def handle_cpu_alert_def handle_memory_alert_def handle_disk_alert_def
  by (simp add: and_then_def py_in_def pure_def emit_def)

lemma execute_info:
  assumes "(case map_of alert ''severity'' of None \<Rightarrow> JStr ''info'' | Some v \<Rightarrow> v) = JStr ''info''"
  shows "execute config now alert =
         and_then (handle_info alert)
           (\<lambda>_. topic_branch alert
                  (case map_of alert ''name'' of None \<Rightarrow> JStr ''Unknown Alert'' | Some v \<Rightarrow> v))"
  using assms by (simp add: execute_def severity_branch_def Let_def)

lemma preserves_execute_info:
  assumes "(case map_of alert ''severity'' of None \<Rightarrow> JStr ''info'' | Some v \<Rightarrow> v) = JStr ''info''"
  shows "preserves (execute config now alert)"
  unfolding execute_info[OF assms]
  by (intro preserves_and_then preserves_handle_info preserves_topic_branch)

lemma preservesD:
  "preserves m \<Longrightarrow> files (snd (m w)) = files w \<and>
     filter is_network (trace (snd (m w))) = filter is_network (trace w)"
  by (simp add: preserves_def)

lemma execute_info_run:
  assumes sev: "(case map_of alert ''severity'' of None \<Rightarrow> JStr ''info'' | Some v \<Rightarrow> v) = JStr ''info''"
    and n: "map_of alert ''name'' = Some n" and v: "map_of alert ''current_value'' = Some v"
  shows "execute config now alert w =
         topic_branch alert n
           (w\<lparr>trace := trace w @ [Print (InfoBanner n), Print (CurrentValue v), Log INFO n v]\<rparr>)"
  unfolding execute_info[OF sev]
  by (simp add: and_then_def handle_info_run[OF n v] n)

subsection \<open>Alerts of severity info\<close>

text \<open>
  C7. For every alert of severity info, \<open>execute\<close> leaves every file as it is, the alert
  history among them, and adds no network effect to the trace: no email is sent. Where
  the alert has its name and its value, the severity branch is the three emissions at
  the INFO level (two console lines and one log record), after which the topic branch
  runs.
\<close>

theorem execute_info_frame:
  assumes sev: "map_of alert ''severity'' = Some (JStr ''info'')"
  shows "files (snd (execute config now alert w)) = files w \<and>
         filter is_network (trace (snd (execute config now alert w))) =
           filter is_network (trace w) \<and>
         (\<forall>n v. map_of alert ''name'' = Some n \<and> map_of alert ''current_value'' = Some v \<longrightarrow>
            execute config now alert w =
            topic_branch alert n
              (w\<lparr>trace := trace w @
                   [Print (InfoBanner n), Print (CurrentValue v), Log INFO n v]\<rparr>))"
proof -
  have s: "(case map_of alert ''severity'' of None \<Rightarrow> JStr ''info'' | Some v \<Rightarrow> v) = JStr ''info''"
    by (simp add: sev)
  from preservesD[OF preserves_execute_info[OF s]] execute_info_run[OF s]
  show ?thesis by blast
qed

text \<open>
  C7 at the info alert of the module's own test run: the history file is still missing,
  and the trace is the three INFO emissions and the line of the CPU hook.
\<close>

theorem execute_info_frame_witness:
  "files (snd (execute default_config ''2026-01-01T00:00:00''
       [(''name'', JStr ''Low CPU Frequency''), (''severity'', JStr ''info''),
        (''current_value'', JFloat (Finite 800))] fresh_world)) = files fresh_world
   \<and> trace (snd (execute default_config ''2026-01-01T00:00:00''
       [(''name'', JStr ''Low CPU Frequency''), (''severity'', JStr ''info''),
        (''current_value'', JFloat (Finite 800))] fresh_world)) =
     [Print (InfoBanner (JStr ''Low CPU Frequency'')), Print (CurrentValue (JFloat (Finite 800))),
      Log INFO (JStr ''Low CPU Frequency'') (JFloat (Finite 800)), Print CpuAction]"
proof -
  let ?alert = "[(''name'', JStr ''Low CPU Frequency''), (''severity'', JStr ''info''),
        (''current_value'', JFloat (Finite 800))]"
  have sev: "map_of ?alert ''severity'' = Some (JStr ''info'')" by simp
  have n: "map_of ?alert ''name'' = Some (JStr ''Low CPU Frequency'')" by simp
  have v: "map_of ?alert ''current_value'' = Some (JFloat (Finite 800))" by simp
  note t = execute_info_frame[OF sev, of default_config "''2026-01-01T00:00:00''" fresh_world]
  from t have a: "files (snd (execute default_config ''2026-01-01T00:00:00'' ?alert fresh_world)) =
      files fresh_world" by blast
  from t n v have "execute default_config ''2026-01-01T00:00:00'' ?alert fresh_world =
      topic_branch ?alert (JStr ''Low CPU Frequency'')
        (fresh_world\<lparr>trace := trace fresh_world @
           [Print (InfoBanner (JStr ''Low CPU Frequency'')),
            Print (CurrentValue (JFloat (Finite 800))),
            Log INFO (JStr ''Low CPU Frequency'') (JFloat (Finite 800))]\<rparr>)" by blast
  then have b: "trace (snd (execute default_config ''2026-01-01T00:00:00'' ?alert fresh_world)) =
     [Print (InfoBanner (JStr ''Low CPU Frequency'')), Print (CurrentValue (JFloat (Finite 800))),
      Log INFO (JStr ''Low CPU Frequency'') (JFloat (Finite 800)), Print CpuAction]"
    by (simp add: topic_branch_str fresh_world_def)
  from a b show ?thesis by blast
qed

subsection \<open>Alerts without a severity, or with an unknown one\<close>

lemma execute_severity_key_info:
  assumes "map_of alert ''severity'' = None"
  shows "execute config now ((''severity'', JStr ''info'') # alert) = execute config now alert"
proof -
  have a: "(case map_of alert ''severity'' of None \<Rightarrow> JStr ''info'' | Some v \<Rightarrow> v) = JStr ''info''"
    by (simp add: assms)
  have b: "(case map_of ((''severity'', JStr ''info'') # alert) ''severity'' of
              None \<Rightarrow> JStr ''info'' | Some v \<Rightarrow> v) = JStr ''info''"
    by simp
  have c: "map_of ((''severity'', JStr ''info'') # alert) ''name'' = map_of alert ''name''"
    by simp
  have d: "topic_branch ((''severity'', JStr ''info'') # alert) = topic_branch alert"
    by (intro ext) (simp only: topic_branch_alert[of "(''severity'', JStr ''info'') # alert" _ alert])
  show ?thesis
    unfolding execute_info[OF a] execute_info[OF b] handle_info_severity_key c d
    by (rule refl)
qed

lemma execute_unknown_severity:
  assumes "map_of alert ''severity'' = Some sev"
    and "sev \<noteq> JStr ''critical''" and "sev \<noteq> JStr ''warning''" and "sev \<noteq> JStr ''info''"
  shows "execute config now alert w =
         topic_branch alert
           (case map_of alert ''name'' of None \<Rightarrow> JStr ''Unknown Alert'' | Some v \<Rightarrow> v) w"
  using assms by (simp add: execute_def severity_branch_def Let_def and_then_def pure_def)

text \<open>
  C10. An alert without the key \<^verbatim>\<open>severity\<close> is handled as the same alert with severity
  info: no file changes, no network effect is added, and where the alert has its name and
  its value the severity branch is the three INFO emissions, after which the topic branch
  runs on the name. An alert whose severity is none of critical, warning and info runs no
  handler of the severity branch: \<open>execute\<close> is the topic branch alone, on the name (or
  on \<^verbatim>\<open>Unknown Alert\<close> when the name is absent).
\<close>

theorem execute_severity_default:
  "(map_of alert ''severity'' = None \<longrightarrow>
      execute config now alert w = execute config now ((''severity'', JStr ''info'') # alert) w \<and>
      files (snd (execute config now alert w)) = files w \<and>
      filter is_network (trace (snd (execute config now alert w))) = filter is_network (trace w) \<and>
      (\<forall>n v. map_of alert ''name'' = Some n \<and> map_of alert ''current_value'' = Some v \<longrightarrow>
         execute config now alert w =
         topic_branch alert n
           (w\<lparr>trace := trace w @
                [Print (InfoBanner n), Print (CurrentValue v), Log INFO n v]\<rparr>))) \<and>
   (\<forall>sev. map_of alert ''severity'' = Some sev \<and> sev \<noteq> JStr ''critical'' \<and>
          sev \<noteq> JStr ''warning'' \<and> sev \<noteq> JStr ''info'' \<longrightarrow>
      execute config now alert w =
      topic_branch alert
        (case map_of alert ''name'' of None \<Rightarrow> JStr ''Unknown Alert'' | Some v \<Rightarrow> v) w)"
proof (intro conjI impI allI)
  assume a: "map_of alert ''severity'' = None"
  then have s: "(case map_of alert ''severity'' of None \<Rightarrow> JStr ''info'' | Some v \<Rightarrow> v) = JStr ''info''"
    by simp
  show "execute config now alert w = execute config now ((''severity'', JStr ''info'') # alert) w"
    by (simp add: execute_severity_key_info[OF a])
  show "files (snd (execute config now alert w)) = files w"
    using preservesD[OF preserves_execute_info[OF s]] by blast
  show "filter is_network (trace (snd (execute config now alert w))) = filter is_network (trace w)"
    using preservesD[OF preserves_execute_info[OF s]] by blast
  fix n v
  assume "map_of alert ''name'' = Some n \<and> map_of alert ''current_value'' = Some v"
  then show "execute config now alert w =
         topic_branch alert n
           (w\<lparr>trace := trace w @
                [Print (InfoBanner n), Print (CurrentValue v), Log INFO n v]\<rparr>)"
    using execute_info_run[OF s] by blast
next
  fix sev
  assume "map_of alert ''severity'' = Some sev \<and> sev \<noteq> JStr ''critical'' \<and>
          sev \<noteq> JStr ''warning'' \<and> sev \<noteq> JStr ''info''"
  then show "execute config now alert w =
      topic_branch alert
        (case map_of alert ''name'' of None \<Rightarrow> JStr ''Unknown Alert'' | Some v \<Rightarrow> v) w"
    using execute_unknown_severity by blast
qed

text \<open>
  C10 at an alert without severity, whose trace is the INFO emissions and the memory hook,
  and at an alert of severity \<^verbatim>\<open>debug\<close>, whose only effect is the disk hook.
\<close>

theorem execute_severity_default_witness:
  "trace (snd (execute default_config ''2026-01-01T00:00:00''
       [(''name'', JStr ''High Memory Usage''), (''current_value'', JFloat (Finite 87.5))]
       fresh_world)) =
     [Print (InfoBanner (JStr ''High Memory Usage'')), Print (CurrentValue (JFloat (Finite 87.5))),
      Log INFO (JStr ''High Memory Usage'') (JFloat (Finite 87.5)), Print MemoryAction]
   \<and> execute default_config ''2026-01-01T00:00:00''
       [(''name'', JStr ''High Disk Usage''), (''severity'', JStr ''debug''),
        (''current_value'', JFloat (Finite 84))] fresh_world =
     (Inr (), fresh_world\<lparr>trace := [Print DiskAction]\<rparr>)"
proof -
  let ?a1 = "[(''name'', JStr ''High Memory Usage''), (''current_value'', JFloat (Finite 87.5))]"
  let ?a2 = "[(''name'', JStr ''High Disk Usage''), (''severity'', JStr ''debug''),
        (''current_value'', JFloat (Finite 84))]"
  have s1: "map_of ?a1 ''severity'' = None" by simp
  have n1: "map_of ?a1 ''name'' = Some (JStr ''High Memory Usage'')" by simp
  have v1: "map_of ?a1 ''current_value'' = Some (JFloat (Finite 87.5))" by simp
  have s2: "map_of ?a2 ''severity'' = Some (JStr ''debug'') \<and> JStr ''debug'' \<noteq> JStr ''critical'' \<and>
          JStr ''debug'' \<noteq> JStr ''warning'' \<and> JStr ''debug'' \<noteq> JStr ''info''" by simp
  note t1 = execute_severity_default[of ?a1 default_config "''2026-01-01T00:00:00''" fresh_world]
  note t2 = execute_severity_default[of ?a2 default_config "''2026-01-01T00:00:00''" fresh_world]
  from t1 s1 n1 v1 have "execute default_config ''2026-01-01T00:00:00'' ?a1 fresh_world =
      topic_branch ?a1 (JStr ''High Memory Usage'')
        (fresh_world\<lparr>trace := trace fresh_world @
           [Print (InfoBanner (JStr ''High Memory Usage'')),
            Print (CurrentValue (JFloat (Finite 87.5))),
            Log INFO (JStr ''High Memory Usage'') (JFloat (Finite 87.5))]\<rparr>)" by blast
  then have a: "trace (snd (execute default_config ''2026-01-01T00:00:00'' ?a1 fresh_world)) =
     [Print (InfoBanner (JStr ''High Memory Usage'')), Print (CurrentValue (JFloat (Finite 87.5))),
      Log INFO (JStr ''High Memory Usage'') (JFloat (Finite 87.5)), Print MemoryAction]"
    by (simp add: topic_branch_str fresh_world_def)
  from t2 have "map_of ?a2 ''severity'' = Some (JStr ''debug'') \<and> JStr ''debug'' \<noteq> JStr ''critical'' \<and>
          JStr ''debug'' \<noteq> JStr ''warning'' \<and> JStr ''debug'' \<noteq> JStr ''info'' \<longrightarrow>
      execute default_config ''2026-01-01T00:00:00'' ?a2 fresh_world =
      topic_branch ?a2 (case map_of ?a2 ''name'' of None \<Rightarrow> JStr ''Unknown Alert'' | Some v \<Rightarrow> v)
        fresh_world"
    by (elim conjE allE[of _ "JStr ''debug''"])
  from this s2 have "execute default_config ''2026-01-01T00:00:00'' ?a2 fresh_world =
      topic_branch ?a2 (case map_of ?a2 ''name'' of None \<Rightarrow> JStr ''Unknown Alert'' | Some v \<Rightarrow> v)
        fresh_world" by (rule mp)
  then have b: "execute default_config ''2026-01-01T00:00:00'' ?a2 fresh_world =
     (Inr (), fresh_world\<lparr>trace := [Print DiskAction]\<rparr>)"
    by (simp add: topic_branch_str fresh_world_def)
  from a b show ?thesis by blast
qed

subsection \<open>The topic branch\<close>

text \<open>
  C8, as amended. When the severity branch returns, the topic branch invokes at most one
  hook, chosen by the first test that succeeds on the name, in this order and by
  case-sensitive substring matches: the CPU hook for a name containing \<^verbatim>\<open>CPU\<close>; otherwise
  the memory hook for a name containing \<^verbatim>\<open>Memory\<close> or \<^verbatim>\<open>RAM\<close>; otherwise the disk hook
  for a name containing \<^verbatim>\<open>Disk\<close>; otherwise none.
\<close>

theorem execute_topic_first_match:
  assumes sev: "severity_branch config now alert
                  (case map_of alert ''severity'' of None \<Rightarrow> JStr ''info'' | Some v \<Rightarrow> v) w =
                (Inr (), w1)"
    and nm: "(case map_of alert ''name'' of None \<Rightarrow> JStr ''Unknown Alert'' | Some v \<Rightarrow> v) = JStr s"
  shows "execute config now alert w =
         (Inr (), w1\<lparr>trace := trace w1 @
            (if str_contains ''CPU'' s then [Print CpuAction]
             else if str_contains ''Memory'' s \<or> str_contains ''RAM'' s then [Print MemoryAction]
             else if str_contains ''Disk'' s then [Print DiskAction]
             else [])\<rparr>)"
proof -
  have "execute config now alert w = topic_branch alert (JStr s) w1"
    using sev nm by (simp add: execute_def Let_def and_then_def)
  then show ?thesis by (simp only: topic_branch_str)
qed

text \<open>
  C8 as amended, at two alerts of a severity that has no handler: a name with \<^verbatim>\<open>CPU\<close>
  and \<^verbatim>\<open>Disk\<close> invokes the CPU hook alone, a name with \<^verbatim>\<open>Disk\<close> alone the disk hook.
\<close>

theorem execute_topic_first_match_witness:
  "execute default_config ''2026-01-01T00:00:00''
     [(''name'', JStr ''CPU and Disk Pressure''), (''severity'', JStr ''notice''),
      (''current_value'', JInt 99)] fresh_world =
   (Inr (), fresh_world\<lparr>trace := [Print CpuAction]\<rparr>)
   \<and> execute default_config ''2026-01-01T00:00:00''
     [(''name'', JStr ''Low Free Disk Space''), (''severity'', JStr ''notice''),
      (''current_value'', JInt 5)] fresh_world =
   (Inr (), fresh_world\<lparr>trace := [Print DiskAction]\<rparr>)"
proof -
  let ?a1 = "[(''name'', JStr ''CPU and Disk Pressure''), (''severity'', JStr ''notice''),
      (''current_value'', JInt 99)]"
  let ?a2 = "[(''name'', JStr ''Low Free Disk Space''), (''severity'', JStr ''notice''),
      (''current_value'', JInt 5)]"
  have s1: "severity_branch default_config ''2026-01-01T00:00:00'' ?a1
              (case map_of ?a1 ''severity'' of None \<Rightarrow> JStr ''info'' | Some v \<Rightarrow> v) fresh_world =
            (Inr (), fresh_world)"
    by (simp add: severity_branch_def pure_def)
  have n1: "(case map_of ?a1 ''name'' of None \<Rightarrow> JStr ''Unknown Alert'' | Some v \<Rightarrow> v) =
            JStr ''CPU and Disk Pressure''" by simp
  have s2: "severity_branch default_config ''2026-01-01T00:00:00'' ?a2
              (case map_of ?a2 ''severity'' of None \<Rightarrow> JStr ''info'' | Some v \<Rightarrow> v) fresh_world =
            (Inr (), fresh_world)"
    by (simp add: severity_branch_def pure_def)
  have n2: "(case map_of ?a2 ''name'' of None \<Rightarrow> JStr ''Unknown Alert'' | Some v \<Rightarrow> v) =
            JStr ''Low Free Disk Space''" by simp
  have t: "trace fresh_world = []" by (simp add: fresh_world_def)
  from execute_topic_first_match[OF s1 n1] execute_topic_first_match[OF s2 n2]
  show ?thesis by (simp add: t)
qed

text \<open>
  C8 as stated fails: the name \<^verbatim>\<open>CPU and Disk Pressure\<close> contains \<^verbatim>\<open>CPU\<close> and
  \<^verbatim>\<open>Disk\<close>, and the trace of \<open>execute\<close> ends with the CPU hook; the disk hook is not
  invoked.
\<close>

theorem execute_topic_counterexample:
  "str_contains ''CPU'' ''CPU and Disk Pressure'' \<and> str_contains ''Disk'' ''CPU and Disk Pressure''
   \<and> trace (snd (execute default_config ''2026-01-01T00:00:00''
       [(''name'', JStr ''CPU and Disk Pressure''), (''severity'', JStr ''info''),
        (''current_value'', JInt 99)] fresh_world)) =
     [Print (InfoBanner (JStr ''CPU and Disk Pressure'')), Print (CurrentValue (JInt 99)),
      Log INFO (JStr ''CPU and Disk Pressure'') (JInt 99), Print CpuAction]"
proof -
  let ?a = "[(''name'', JStr ''CPU and Disk Pressure''), (''severity'', JStr ''info''),
        (''current_value'', JInt 99)]"
  have s: "(case map_of ?a ''severity'' of None \<Rightarrow> JStr ''info'' | Some v \<Rightarrow> v) = JStr ''info''"
    by simp
  have n: "map_of ?a ''name'' = Some (JStr ''CPU and Disk Pressure'')" by simp
  have v: "map_of ?a ''current_value'' = Some (JInt 99)" by simp
  have a: "str_contains ''CPU'' ''CPU and Disk Pressure''" by simp
  have b: "str_contains ''Disk'' ''CPU and Disk Pressure''" by simp
  have c: "trace (snd (execute default_config ''2026-01-01T00:00:00'' ?a fresh_world)) =
     [Print (InfoBanner (JStr ''CPU and Disk Pressure'')), Print (CurrentValue (JInt 99)),
      Log INFO (JStr ''CPU and Disk Pressure'') (JInt 99), Print CpuAction]"
    unfolding execute_info_run[OF s n v] topic_branch_str
    by (simp add: fresh_world_def)
  from a b c show ?thesis by blast
qed

subsection \<open>Reading the history\<close>

text \<open>
  C9. With a history stored in the file, \<open>get_alert_history\<close> returns all of it for the
  limit 0, and for a positive limit its last \<open>limit\<close> records, which are all its records
  when it has no more than \<open>limit\<close>. With the file missing, or not decodable, it returns
  the empty list.
\<close>

theorem get_alert_history_limit:
  "(files w (history_path config) = Stored history \<longrightarrow>
      fst (get_alert_history config 0 w) = history \<and>
      (\<forall>limit. 0 < limit \<longrightarrow>
         fst (get_alert_history config limit w) = last_n (nat limit) history \<and>
         (length history \<le> nat limit \<longrightarrow> fst (get_alert_history config limit w) = history))) \<and>
   (files w (history_path config) = Missing \<or> files w (history_path config) = Corrupt \<longrightarrow>
      fst (get_alert_history config limit' w) = [])"
proof (intro conjI impI allI)
  assume st: "files w (history_path config) = Stored history"
  show "fst (get_alert_history config 0 w) = history"
    by (simp add: get_alert_history_def st)
  fix limit :: int
  assume pos: "0 < limit"
  have "nat (int (length history) - limit) = length history - nat limit"
    using pos by linarith
  then show l: "fst (get_alert_history config limit w) = last_n (nat limit) history"
    using pos by (simp add: get_alert_history_def st slice_from_def last_n_drop)
  assume "length history \<le> nat limit"
  then show "fst (get_alert_history config limit w) = history"
    using l by (simp add: last_n_all)
next
  assume "files w (history_path config) = Missing \<or> files w (history_path config) = Corrupt"
  then show "fst (get_alert_history config limit' w) = []"
    by (auto simp: get_alert_history_def)
qed

text \<open>
  C9 at a history of three records with the limits 0, 2 and 10, and at a missing file.
\<close>

theorem get_alert_history_limit_witness:
  "fst (get_alert_history default_config 0
     (fresh_world\<lparr>files := (files fresh_world)(''alert_history.json'' := Stored [JInt 1, JInt 2, JInt 3])\<rparr>)) =
     [JInt 1, JInt 2, JInt 3]
   \<and> fst (get_alert_history default_config 2
     (fresh_world\<lparr>files := (files fresh_world)(''alert_history.json'' := Stored [JInt 1, JInt 2, JInt 3])\<rparr>)) =
     [JInt 2, JInt 3]
   \<and> fst (get_alert_history default_config 10
     (fresh_world\<lparr>files := (files fresh_world)(''alert_history.json'' := Stored [JInt 1, JInt 2, JInt 3])\<rparr>)) =
     [JInt 1, JInt 2, JInt 3]
   \<and> fst (get_alert_history default_config 10 fresh_world) = []"
proof -
  let ?w = "fresh_world\<lparr>files := (files fresh_world)(''alert_history.json'' := Stored [JInt 1, JInt 2, JInt 3])\<rparr>"
  have p: "history_path default_config = ''alert_history.json''"
    by (simp add: history_path_def default_config_def)
  have st: "files ?w (history_path default_config) = Stored [JInt 1, JInt 2, JInt 3]"
    by (simp add: p)
  have ms: "files fresh_world (history_path default_config) = Missing \<or>
            files fresh_world (history_path default_config) = Corrupt"
    by (simp add: fresh_world_def)
  note t = get_alert_history_limit[of ?w default_config "[JInt 1, JInt 2, JInt 3]" 10]
  note u = get_alert_history_limit[of fresh_world default_config "[]" 10]
  from t st have a: "fst (get_alert_history default_config 0 ?w) = [JInt 1, JInt 2, JInt 3]"
    by blast
  from t st have "fst (get_alert_history default_config 2 ?w) = last_n (nat 2) [JInt 1, JInt 2, JInt 3]"
    by simp
  then have b: "fst (get_alert_history default_config 2 ?w) = [JInt 2, JInt 3]"
    by (simp add: last_n_def)
  from t st have "fst (get_alert_history default_config 10 ?w) = last_n (nat 10) [JInt 1, JInt 2, JInt 3]"
    by simp
  then have c: "fst (get_alert_history default_config 10 ?w) = [JInt 1, JInt 2, JInt 3]"
    by (simp add: last_n_def)
  from u ms have d: "fst (get_alert_history default_config 10 fresh_world) = []"
    by blast
  from a b c d show ?thesis by blast
qed

subsection \<open>Writing the history\<close>

lemma send_email_disabled: "\<not> email_enabled config \<Longrightarrow> send_email config now alert = pure ()"
  by (auto simp: email_enabled_def send_email_def split: option.splits)

lemma load_history_records: "load_history p w = (Inr (records_of (files w p)), w)"
  by (simp add: load_history_def records_of_def pure_def split: json_file.splits)

lemma save_to_history_run:
  assumes n: "map_of alert ''name'' = Some n" and s: "map_of alert ''severity'' = Some sv"
    and v: "map_of alert ''current_value'' = Some v"
    and wr: "writable w (history_path config)"
  shows "save_to_history config now alert w =
         (Inr (), w\<lparr>files := (files w)(history_path config :=
            Stored (last_n 1000 (records_of (files w (history_path config)) @
              [JDict [(''timestamp'', JStr now), (''name'', n), (''severity'', sv),
                      (''current_value'', v)]])))\<rparr>)"
proof -
  let ?r = "JDict [(''timestamp'', JStr now), (''name'', n), (''severity'', sv),
                      (''current_value'', v)]"
  let ?h = "records_of (files w (history_path config)) @ [?r]"
  have trim: "(if length ?h > 1000 then slice_from (- 1000) ?h else ?h) = last_n 1000 ?h"
    by (rule trim_last_n)
  have "save_to_history config now alert w =
        try_except (dump_history (history_path config)
                      (if length ?h > 1000 then slice_from (- 1000) ?h else ?h))
          (emit (Print HistoryFailed)) w"
    by (simp add: save_to_history_def Let_def and_then_def load_history_records item_def n s v
        pure_def)
  also have "\<dots> = (Inr (), w\<lparr>files := (files w)(history_path config := Stored (last_n 1000 ?h))\<rparr>)"
    unfolding trim by (simp add: try_except_def dump_history_def wr)
  finally show ?thesis .
qed

lemma alert_record_keys:
  assumes "map_of alert ''name'' = Some n" and "map_of alert ''severity'' = Some sv"
    and "map_of alert ''current_value'' = Some v"
  shows "alert_record now alert =
         JDict [(''timestamp'', JStr now), (''name'', n), (''severity'', sv), (''current_value'', v)]"
  using assms by (simp add: alert_record_def value_of_def)

lemma save_to_history_has_keys:
  assumes k: "has_keys alert" and wr: "writable w (history_path config)"
  shows "save_to_history config now alert w =
         (Inr (), w\<lparr>files := (files w)(history_path config :=
            Stored (last_n 1000 (records_of (files w (history_path config)) @
              [alert_record now alert])))\<rparr>)"
proof -
  from k obtain n sv v where n: "map_of alert ''name'' = Some n"
    and s: "map_of alert ''severity'' = Some sv" and v: "map_of alert ''current_value'' = Some v"
    by (auto simp: has_keys_def)
  show ?thesis
    unfolding alert_record_keys[OF n s v] by (rule save_to_history_run[OF n s v wr])
qed

lemma handle_critical_run:
  assumes n: "map_of alert ''name'' = Some n" and s: "map_of alert ''severity'' = Some sv"
    and v: "map_of alert ''current_value'' = Some v"
    and off: "\<not> email_enabled config" and wr: "writable w (history_path config)"
  shows "handle_critical config now alert w =
         system_notification alert
           (w\<lparr>trace := trace w @ [Print (CriticalBanner n), Print (CurrentValue v), Log CRITICAL n v],
              files := (files w)(history_path config :=
                Stored (last_n 1000 (records_of (files w (history_path config)) @
                  [JDict [(''timestamp'', JStr now), (''name'', n), (''severity'', sv),
                          (''current_value'', v)]])))\<rparr>)"
proof -
  let ?w1 = "w\<lparr>trace := trace w @ [Print (CriticalBanner n), Print (CurrentValue v), Log CRITICAL n v]\<rparr>"
  have wr1: "writable ?w1 (history_path config)" using wr by simp
  have "handle_critical config now alert w =
        and_then (save_to_history config now alert) (\<lambda>_. system_notification alert) ?w1"
    by (simp add: handle_critical_def and_then_def item_def n v pure_def emit_def
        send_email_disabled[OF off])
  also have "\<dots> = system_notification alert
     (?w1\<lparr>files := (files ?w1)(history_path config :=
            Stored (last_n 1000 (records_of (files ?w1 (history_path config)) @
              [JDict [(''timestamp'', JStr now), (''name'', n), (''severity'', sv),
                      (''current_value'', v)]])))\<rparr>)"
    by (simp only: and_then_def save_to_history_run[OF n s v wr1] prod.case sum.case)
  finally show ?thesis by simp
qed

text \<open>
  C6. For every alert of severity critical that has its name and its value, with email
  delivery disabled in the configuration and a history file that can be written:
  \<open>execute\<close> leaves in the history file the records it held (none for a missing or
  undecodable file) followed by the record of the alert, cut to the last 1000, and adds
  no network effect to the trace.
\<close>

theorem execute_critical_email_disabled:
  assumes sev: "map_of alert ''severity'' = Some (JStr ''critical'')"
    and n: "map_of alert ''name'' = Some n" and v: "map_of alert ''current_value'' = Some v"
    and off: "\<not> email_enabled config" and wr: "writable w (history_path config)"
  shows "files (snd (execute config now alert w)) (history_path config) =
           Stored (last_n 1000 (records_of (files w (history_path config)) @
             [JDict [(''timestamp'', JStr now), (''name'', n), (''severity'', JStr ''critical''),
                     (''current_value'', v)]])) \<and>
         filter is_network (trace (snd (execute config now alert w))) =
           filter is_network (trace w)"
proof -
  let ?w2 = "w\<lparr>trace := trace w @ [Print (CriticalBanner n), Print (CurrentValue v), Log CRITICAL n v],
              files := (files w)(history_path config :=
                Stored (last_n 1000 (records_of (files w (history_path config)) @
                  [JDict [(''timestamp'', JStr now), (''name'', n), (''severity'', JStr ''critical''),
                          (''current_value'', v)]])))\<rparr>"
  let ?rest = "and_then (system_notification alert) (\<lambda>_. topic_branch alert n)"
  have "execute config now alert w = and_then (handle_critical config now alert) (\<lambda>_. topic_branch alert n) w"
    by (simp add: execute_def severity_branch_def Let_def sev n)
  also have "\<dots> = ?rest ?w2"
    by (simp only: and_then_def handle_critical_run[OF n sev v off wr])
  finally have ex: "execute config now alert w = ?rest ?w2" .
  have "preserves ?rest"
    by (intro preserves_and_then preserves_system_notification preserves_topic_branch)
  from preservesD[OF this, of ?w2] have
    "files (snd (?rest ?w2)) = files ?w2"
    "filter is_network (trace (snd (?rest ?w2))) = filter is_network (trace ?w2)"
    by blast+
  then show ?thesis unfolding ex by simp
qed

text \<open>
  C6 at the critical alert of the module's own test run, with the default configuration
  (email disabled) and no history file yet.
\<close>

theorem execute_critical_email_disabled_witness:
  "files (snd (execute default_config ''2026-01-01T00:00:00''
      [(''name'', JStr ''Critical CPU Usage''), (''severity'', JStr ''critical''),
       (''current_value'', JFloat (Finite 97.5))] fresh_world)) ''alert_history.json'' =
     Stored [JDict [(''timestamp'', JStr ''2026-01-01T00:00:00''),
                    (''name'', JStr ''Critical CPU Usage''), (''severity'', JStr ''critical''),
                    (''current_value'', JFloat (Finite 97.5))]]
   \<and> filter is_network (trace (snd (execute default_config ''2026-01-01T00:00:00''
      [(''name'', JStr ''Critical CPU Usage''), (''severity'', JStr ''critical''),
       (''current_value'', JFloat (Finite 97.5))] fresh_world))) = []"
proof -
  let ?a = "[(''name'', JStr ''Critical CPU Usage''), (''severity'', JStr ''critical''),
       (''current_value'', JFloat (Finite 97.5))]"
  have p: "history_path default_config = ''alert_history.json''"
    by (simp add: history_path_def default_config_def)
  have sev: "map_of ?a ''severity'' = Some (JStr ''critical'')" by simp
  have n: "map_of ?a ''name'' = Some (JStr ''Critical CPU Usage'')" by simp
  have v: "map_of ?a ''current_value'' = Some (JFloat (Finite 97.5))" by simp
  have off: "\<not> email_enabled default_config"
    by (simp add: email_enabled_def default_config_def)
  have wr: "writable fresh_world (history_path default_config)"
    by (simp add: fresh_world_def)
  have r: "records_of (files fresh_world ''alert_history.json'') = []"
    by (simp add: fresh_world_def records_of_def)
  have t: "trace fresh_world = []" by (simp add: fresh_world_def)
  have l: "last_n 1000 [x] = [x]" for x :: jvalue by (simp add: last_n_def)
  from execute_critical_email_disabled[OF sev n v off wr, of "''2026-01-01T00:00:00''"]
  show ?thesis unfolding p r t by (simp add: l)
qed

lemma save_all_from_stored:
  assumes "files w (history_path config) = Stored h" and "length h \<le> 1000"
    and "writable w (history_path config)" and "\<forall>x \<in> set appends. has_keys (snd x)"
  shows "files (snd (save_all config appends w)) (history_path config) =
         Stored (last_n 1000 (h @ map (\<lambda>x. alert_record (fst x) (snd x)) appends))"
  using assms
proof (induction appends arbitrary: w h)
  case Nil
  then show ?case by (simp add: pure_def last_n_all)
next
  case (Cons a appends)
  obtain now alert where a: "a = (now, alert)" by (cases a)
  from Cons.prems a have k: "has_keys alert" by simp
  let ?h' = "last_n 1000 (h @ [alert_record now alert])"
  let ?w' = "w\<lparr>files := (files w)(history_path config := Stored ?h')\<rparr>"
  have step: "save_to_history config now alert w = (Inr (), ?w')"
    using save_to_history_has_keys[OF k Cons.prems(3), of now] Cons.prems(1)
    by (simp add: records_of_def)
  have run: "save_all config (a # appends) w = save_all config appends ?w'"
    by (simp add: a and_then_def step)
  have "files (snd (save_all config appends ?w')) (history_path config) =
        Stored (last_n 1000 (?h' @ map (\<lambda>x. alert_record (fst x) (snd x)) appends))"
  proof (rule Cons.IH)
    show "files ?w' (history_path config) = Stored ?h'" by simp
    show "length ?h' \<le> 1000" by (simp add: length_last_n)
    show "writable ?w' (history_path config)" using Cons.prems(3) by simp
    show "\<forall>x \<in> set appends. has_keys (snd x)" using Cons.prems(4) by simp
  qed
  then show ?case
    unfolding run by (simp add: last_n_append_last_n a)
qed

text \<open>
  C4. Appending the records of one or more alerts one at a time with \<open>save_to_history\<close>,
  from any state of the history file that can be written: the file then holds the last
  1000 of the records it held followed by the appended ones, in their order, and their
  number is the minimum of 1000 and the number of initial and appended records.
\<close>

theorem save_all_keeps_last_1000:
  assumes ne: "appends \<noteq> []" and keys: "\<forall>x \<in> set appends. has_keys (snd x)"
    and wr: "writable w (history_path config)"
  shows "files (snd (save_all config appends w)) (history_path config) =
           Stored (last_n 1000 (records_of (files w (history_path config)) @
                     map (\<lambda>x. alert_record (fst x) (snd x)) appends)) \<and>
         length (last_n 1000 (records_of (files w (history_path config)) @
                     map (\<lambda>x. alert_record (fst x) (snd x)) appends)) =
           min (length (records_of (files w (history_path config))) + length appends) 1000"
proof -
  from ne obtain a rest where ap: "appends = a # rest" by (cases appends) auto
  obtain now alert where a: "a = (now, alert)" by (cases a)
  from keys ap a have k: "has_keys alert" by simp
  let ?h0 = "records_of (files w (history_path config))"
  let ?h' = "last_n 1000 (?h0 @ [alert_record now alert])"
  let ?w' = "w\<lparr>files := (files w)(history_path config := Stored ?h')\<rparr>"
  have step: "save_to_history config now alert w = (Inr (), ?w')"
    by (rule save_to_history_has_keys[OF k wr])
  have run: "save_all config appends w = save_all config rest ?w'"
    by (simp add: ap a and_then_def step)
  have "files (snd (save_all config rest ?w')) (history_path config) =
        Stored (last_n 1000 (?h' @ map (\<lambda>x. alert_record (fst x) (snd x)) rest))"
  proof (rule save_all_from_stored)
    show "files ?w' (history_path config) = Stored ?h'" by simp
    show "length ?h' \<le> 1000" by (simp add: length_last_n)
    show "writable ?w' (history_path config)" using wr by simp
    show "\<forall>x \<in> set rest. has_keys (snd x)" using keys ap by simp
  qed
  then have "files (snd (save_all config appends w)) (history_path config) =
           Stored (last_n 1000 (?h0 @ map (\<lambda>x. alert_record (fst x) (snd x)) appends))"
    unfolding run by (simp add: last_n_append_last_n ap a)
  then show ?thesis by (simp add: length_last_n)
qed

text \<open>
  C4 at two appends to a missing file, and at 1050 appends to a missing file, after which
  the file holds 1000 records.
\<close>

theorem save_all_keeps_last_1000_witness:
  "files (snd (save_all default_config
      [(''2026-01-01T00:00:00'',
        [(''name'', JStr ''High CPU Usage''), (''severity'', JStr ''warning''),
         (''current_value'', JFloat (Finite 85.5))]),
       (''2026-01-01T00:00:05'',
        [(''name'', JStr ''Low Free Disk Space''), (''severity'', JStr ''warning''),
         (''current_value'', JInt 5)])] fresh_world)) ''alert_history.json'' =
     Stored [JDict [(''timestamp'', JStr ''2026-01-01T00:00:00''), (''name'', JStr ''High CPU Usage''),
                    (''severity'', JStr ''warning''), (''current_value'', JFloat (Finite 85.5))],
             JDict [(''timestamp'', JStr ''2026-01-01T00:00:05''),
                    (''name'', JStr ''Low Free Disk Space''), (''severity'', JStr ''warning''),
                    (''current_value'', JInt 5)]]
   \<and> files (snd (save_all default_config
      (replicate 1050
        (''2026-01-01T00:00:00'',
         [(''name'', JStr ''High CPU Usage''), (''severity'', JStr ''warning''),
          (''current_value'', JFloat (Finite 85.5))])) fresh_world)) ''alert_history.json'' =
     Stored (replicate 1000
       (JDict [(''timestamp'', JStr ''2026-01-01T00:00:00''), (''name'', JStr ''High CPU Usage''),
               (''severity'', JStr ''warning''), (''current_value'', JFloat (Finite 85.5))]))"
proof -
  let ?a1 = "[(''name'', JStr ''High CPU Usage''), (''severity'', JStr ''warning''),
         (''current_value'', JFloat (Finite 85.5))]"
  let ?a2 = "[(''name'', JStr ''Low Free Disk Space''), (''severity'', JStr ''warning''),
         (''current_value'', JInt 5)]"
  let ?two = "[(''2026-01-01T00:00:00'', ?a1), (''2026-01-01T00:00:05'', ?a2)]"
  let ?many = "replicate 1050 (''2026-01-01T00:00:00'', ?a1)"
  have p: "history_path default_config = ''alert_history.json''"
    by (simp add: history_path_def default_config_def)
  have k1: "has_keys ?a1" by (simp add: has_keys_def)
  have k2: "has_keys ?a2" by (simp add: has_keys_def)
  have wr: "writable fresh_world (history_path default_config)"
    by (simp add: fresh_world_def)
  have r: "records_of (files fresh_world ''alert_history.json'') = []"
    by (simp add: fresh_world_def records_of_def)
  have ne2: "?two \<noteq> []" by simp
  have ks2: "\<forall>x \<in> set ?two. has_keys (snd x)" using k1 k2 by simp
  have nem: "?many \<noteq> []" by simp
  have ksm: "\<forall>x \<in> set ?many. has_keys (snd x)" using k1 by simp
  have rec1: "alert_record ''2026-01-01T00:00:00'' ?a1 =
      JDict [(''timestamp'', JStr ''2026-01-01T00:00:00''), (''name'', JStr ''High CPU Usage''),
             (''severity'', JStr ''warning''), (''current_value'', JFloat (Finite 85.5))]"
    by (simp add: alert_record_def value_of_def)
  have rec2: "alert_record ''2026-01-01T00:00:05'' ?a2 =
      JDict [(''timestamp'', JStr ''2026-01-01T00:00:05''), (''name'', JStr ''Low Free Disk Space''),
             (''severity'', JStr ''warning''), (''current_value'', JInt 5)]"
    by (simp add: alert_record_def value_of_def)
  have l2: "last_n 1000 [x, y] = [x, y]" for x y :: jvalue by (simp add: last_n_def)
  have lm: "last_n 1000 (replicate 1050 x) = replicate 1000 x" for x :: jvalue
    by (simp add: last_n_def)
  from save_all_keeps_last_1000[OF ne2 ks2 wr]
  have a: "files (snd (save_all default_config ?two fresh_world)) ''alert_history.json'' =
     Stored [alert_record ''2026-01-01T00:00:00'' ?a1, alert_record ''2026-01-01T00:00:05'' ?a2]"
    unfolding p r by (simp only: list.map fst_conv snd_conv append_Nil l2)
  from save_all_keeps_last_1000[OF nem ksm wr]
  have b: "files (snd (save_all default_config ?many fresh_world)) ''alert_history.json'' =
     Stored (replicate 1000 (alert_record ''2026-01-01T00:00:00'' ?a1))"
    unfolding p r by (simp only: map_replicate fst_conv snd_conv append_Nil lm)
  from a b show ?thesis unfolding rec1 rec2 by blast
qed

end
